theory Spec2Isabelle
  imports Complex_Main "HOL-Library.Word"
begin

section \<open>Vocabulary shared by the handlers\<close>

text \<open>
  The service is an HTTP server (\<^verbatim>\<open>internal/api\<close>) in front of three
  collaborators: an embedding provider, a Qdrant vector index and an answer generator.
  Errors are carried as their message (\<^verbatim>\<open>err.Error()\<close>); a Go result
  \<^verbatim>\<open>(v, err)\<close> is a sum with the message on the left.
\<close>

type_synonym err = string

text \<open>A \<^verbatim>\<open>float32\<close> is kept as its 32 bits; the code never computes with one.\<close>

datatype float32 = Float32 "32 word"

definition nl :: string where
  "nl = [CHR 0x0A]"

text \<open>\<^verbatim>\<open>fmt.Sprintf("%d", n)\<close> for a non-negative \<open>n\<close>.\<close>

function showNat :: "nat \<Rightarrow> string" where
  "showNat n =
     (if n < 10 then [''0123456789'' ! n]
      else showNat (n div 10) @ [''0123456789'' ! (n mod 10)])"
  by pat_completeness auto
termination
  by (relation "measure (\<lambda>n. n)") auto

declare showNat.simps [simp del]

subsection \<open>Time\<close>

text \<open>
  A clock reading is a count of nanoseconds and a \<^verbatim>\<open>time.Duration\<close> a signed
  64-bit count of nanoseconds. \<^verbatim>\<open>time.Since\<close> saturates at the ends of the
  range; multiplying a duration wraps around.
\<close>

definition maxDuration :: int where
  "maxDuration = 2 ^ 63 - 1"

definition minDuration :: int where
  "minDuration = - (2 ^ 63)"

definition wrap64 :: "int \<Rightarrow> int" where
  "wrap64 x = (x + 2 ^ 63) mod 2 ^ 64 - 2 ^ 63"

definition time_Since :: "int \<Rightarrow> int \<Rightarrow> int" where
  "time_Since now t =
     (let d = now - t
      in if maxDuration < d then maxDuration
         else if d < minDuration then minDuration
         else d)"

definition time_Second :: int where
  "time_Second = 1000000000"

section \<open>Requests, responses and the calls to collaborators\<close>

subsection \<open>Wire structs of \<^verbatim>\<open>internal/api/server.go\<close>\<close>

text \<open>
  Field names are those of the source; a name used by several structs carries a prefix.
  A Go map is a partial function (a nil map has no key).
\<close>

record UploadTextRequest =
  Text :: string
  ut_Metadata :: "string \<rightharpoonup> string"
  Source :: string

record UploadTextResponse =
  ur_Message :: string
  ChunkCount :: nat
  ChunkIDs :: "string list"

record SearchRequest =
  sq_Query :: string
  TopK :: int

record SearchResultItem =
  it_ID :: string
  it_Content :: string
  it_Score :: float32
  it_Metadata :: "string \<rightharpoonup> string"

record SearchResponse =
  Results :: "SearchResultItem list"

record ChatRequest =
  cq_Message :: string
  cq_SessionID :: string
  UserID :: string

record ChatResponse =
  Response :: string
  cr_SessionID :: string

text \<open>What a handler hands to \<^verbatim>\<open>json.NewEncoder(w).Encode\<close>, or writes as text.\<close>

datatype jsonValue =
    JMap "(string \<times> string) list"
  | JUploadTextResponse UploadTextResponse
  | JSearchResponse SearchResponse
  | JChatResponse ChatResponse

datatype written = Json jsonValue | Plain string

record request =
  Method :: string
  URL_Path :: string
  Header :: "string \<rightharpoonup> string list"
  RemoteAddr :: string
  Body :: string

record responseWriter =
  w_header :: "string \<rightharpoonup> string"
  w_status :: "nat option"
  w_body :: "written list"

subsection \<open>Structs of the Qdrant client (\<^verbatim>\<open>internal/vectorstore/qdrant\<close>)\<close>

record SparseVector =
  sv_Indices :: "32 word list"
  sv_Values :: "float32 list"

record Document =
  doc_ID :: string
  doc_Content :: string
  doc_Metadata :: "string \<rightharpoonup> string"
  Dense :: "float32 list"
  Sparse :: "SparseVector option"

record SearchResult =
  sr_ID :: string
  sr_Score :: float32
  sr_Content :: string
  sr_Payload :: "string \<rightharpoonup> string"

text \<open>The protobuf messages exchanged with the index.\<close>

datatype pbValue = StringValue string | IntegerValue int | BoolValue bool | NullValue

fun GetStringValue :: "pbValue \<Rightarrow> string" where
  "GetStringValue (StringValue s) = s"
| "GetStringValue _ = []"

record pbVector =
  vec_Data :: "float32 list"
  vec_Indices :: "32 word list option"

record PointStruct =
  ps_Id :: string
  ps_Vectors :: "string \<rightharpoonup> pbVector"
  ps_Payload :: "string \<rightharpoonup> pbValue"

record UpsertPoints =
  up_CollectionName :: string
  up_Points :: "PointStruct list"

datatype VectorInput =
    VectorInput_Dense "float32 list"
  | VectorInput_Sparse "32 word list" "float32 list"

record PrefetchQuery =
  pf_Nearest :: VectorInput
  pf_Using :: string
  pf_Limit :: "64 word"

datatype Fusion = Fusion_RRF

record QueryPoints =
  qp_CollectionName :: string
  qp_Prefetch :: "PrefetchQuery list"
  qp_Fusion :: Fusion
  qp_Limit :: "64 word"
  qp_WithPayload :: bool

datatype PointId = PointId_Uuid string | PointId_Num "64 word"

record ScoredPoint =
  sp_Id :: "PointId option"
  sp_Score :: float32
  sp_Payload :: "string \<rightharpoonup> pbValue"

fun GetUuid :: "PointId option \<Rightarrow> string" where
  "GetUuid (Some (PointId_Uuid u)) = u"
| "GetUuid _ = []"

subsection \<open>Embedding provider and answer generator\<close>

text \<open>
  \<^verbatim>\<open>result.Embeddings\<close> is a slice that may be nil (\<open>None\<close>); each entry is
  kept as its \<^verbatim>\<open>Values\<close>.
\<close>

record EmbedContentResponse =
  Embeddings :: "float32 list list option"

record RetrievedContext =
  Documents :: "SearchResult list"
  rc_Query :: string

datatype tool = GoogleSearch

record llmagentConfig =
  ag_Name :: string
  ag_Description :: string
  ag_Instruction :: string
  ag_Tools :: "tool list"

record runnerConfig =
  rn_AppName :: string
  rn_Agent :: llmagentConfig

text \<open>
  An event of the generator's stream: \<open>None\<close> when
  \<^verbatim>\<open>event.LLMResponse.Content\<close> is nil, else the \<^verbatim>\<open>Text\<close> of each part.
\<close>

record Event =
  ev_Parts :: "string list option"

subsection \<open>The world outside the process\<close>

text \<open>
  Every call that leaves the process is appended to \<open>calls\<close>, so that a theorem
  can say which calls a handler made. \<open>uuids_used\<close> counts the identifiers drawn
  from \<^verbatim>\<open>uuid.New()\<close>; \<open>panicked\<close> is set when a handler panics (the
  statements after the panic do not run). Log output is not modelled.
\<close>

datatype call =
    Call_SplitText string
  | Call_EmbedContent string "string list"
  | Call_Upsert UpsertPoints
  | Call_Query QueryPoints
  | Call_SessionCreate string string
  | Call_AgentNew llmagentConfig
  | Call_RunnerNew runnerConfig
  | Call_RunnerRun runnerConfig string string string

record world =
  calls :: "call list"
  uuids_used :: nat
  panicked :: "string option"

type_synonym handlerFunc = "responseWriter \<Rightarrow> request \<Rightarrow> world \<Rightarrow> responseWriter \<times> world"

record config =
  Server_APIKey :: string
  Server_RateLimit :: int
  Server_RateWindow :: int
  VectorStore_Collection :: string
  Retriever_TopK :: int
  Model_EmbeddingModel :: string
  Agent_Name :: string
  Agent_Description :: string
  Agent_Instruction :: string

text \<open>
  The collaborators and library functions the code calls but does not define. Each is a
  parameter: the theorems hold whatever these functions answer.
\<close>

record env =
  cfg :: config
  decode_UploadTextRequest :: "string \<Rightarrow> err + UploadTextRequest"
  decode_SearchRequest :: "string \<Rightarrow> err + SearchRequest"
  decode_ChatRequest :: "string \<Rightarrow> err + ChatRequest"
  splitter_SplitText :: "string \<Rightarrow> err + string list"
  Models_EmbedContent :: "string \<Rightarrow> string list \<Rightarrow> err + EmbedContentResponse"
  points_Upsert :: "UpsertPoints \<Rightarrow> err option"
  points_Query :: "QueryPoints \<Rightarrow> err + ScoredPoint list"
  sessionService_Create :: "string \<Rightarrow> string \<Rightarrow> err + string"
  llmagent_New :: "llmagentConfig \<Rightarrow> err option"
  runner_New :: "runnerConfig \<Rightarrow> err option"
  runner_Run :: "runnerConfig \<Rightarrow> string \<Rightarrow> string \<Rightarrow> string \<Rightarrow> (err + Event) list"
  uuid_New :: "nat \<Rightarrow> string"
  fmt_float2 :: "float32 \<Rightarrow> string"
  httpSwagger_Handler :: handlerFunc

definition called :: "call \<Rightarrow> world \<Rightarrow> world" where
  "called c st = st\<lparr>calls := calls st @ [c]\<rparr>"

subsection \<open>\<^verbatim>\<open>net/http\<close>: headers and the response writer\<close>

text \<open>
  \<^verbatim>\<open>Header.Get\<close> looks the name up in its canonical form, the form under which
  the server stores a received header, and returns the first value or the empty string.
\<close>

definition header_Get :: "(string \<rightharpoonup> string list) \<Rightarrow> string \<Rightarrow> string" where
  "header_Get h key = (case h key of None \<Rightarrow> [] | Some [] \<Rightarrow> [] | Some (v # _) \<Rightarrow> v)"

definition header_Set :: "responseWriter \<Rightarrow> string \<Rightarrow> string \<Rightarrow> responseWriter" where
  "header_Set w k v = w\<lparr>w_header := (w_header w)(k \<mapsto> v)\<rparr>"

text \<open>Only the first \<^verbatim>\<open>WriteHeader\<close> counts; a first write implies status 200.\<close>

definition WriteHeader :: "responseWriter \<Rightarrow> nat \<Rightarrow> responseWriter" where
  "WriteHeader w code = (case w_status w of None \<Rightarrow> w\<lparr>w_status := Some code\<rparr> | Some _ \<Rightarrow> w)"

definition Write :: "responseWriter \<Rightarrow> written \<Rightarrow> responseWriter" where
  "Write w x = (let w1 = WriteHeader w 200 in w1\<lparr>w_body := w_body w1 @ [x]\<rparr>)"

definition http_Error :: "responseWriter \<Rightarrow> string \<Rightarrow> nat \<Rightarrow> responseWriter" where
  "http_Error w msg code =
     (let w1 = w\<lparr>w_header := (w_header w)(''Content-Length'' := None)\<rparr>;
          w2 = header_Set w1 ''Content-Type'' ''text/plain; charset=utf-8'';
          w3 = header_Set w2 ''X-Content-Type-Options'' ''nosniff'';
          w4 = WriteHeader w3 code
      in Write w4 (Plain (msg @ nl)))"

definition StatusOK :: nat where "StatusOK = 200"
definition StatusBadRequest :: nat where "StatusBadRequest = 400"
definition StatusUnauthorized :: nat where "StatusUnauthorized = 401"
definition StatusNotFound :: nat where "StatusNotFound = 404"
definition StatusMethodNotAllowed :: nat where "StatusMethodNotAllowed = 405"
definition StatusTooManyRequests :: nat where "StatusTooManyRequests = 429"
definition StatusInternalServerError :: nat where "StatusInternalServerError = 500"

section \<open>The admission gate (\<^verbatim>\<open>internal/api/middleware.go\<close>)\<close>

record clientLimiter =
  tokens :: int
  last_t :: int

record rateLimiter =
  clients :: "string \<rightharpoonup> clientLimiter"
  rate :: int
  window :: int

record middleware =
  apiKey :: string
  rateLimiter :: rateLimiter

definition newMiddleware :: "string \<Rightarrow> int \<Rightarrow> int \<Rightarrow> middleware" where
  "newMiddleware key rateLimit rateWindow =
     \<lparr>apiKey = key,
      rateLimiter = \<lparr>clients = Map.empty, rate = rateLimit, window = rateWindow\<rparr>\<rparr>"

text \<open>
  \<^verbatim>\<open>rateLimiter.allow\<close>. The call holds the limiter's lock from its first
  statement to its return, so it is one step at the clock reading \<open>now\<close>. The
  identifiers of the source are kept; the field \<^verbatim>\<open>last\<close> is \<open>last_t\<close>.
\<close>

definition allow :: "rateLimiter \<Rightarrow> string \<Rightarrow> int \<Rightarrow> bool \<times> rateLimiter" where
  "allow rl ip now =
     (case clients rl ip of
        None \<Rightarrow>
          (True, rl\<lparr>clients := (clients rl)(ip \<mapsto> \<lparr>tokens = rate rl - 1, last_t = now\<rparr>)\<rparr>)
      | Some cl \<Rightarrow>
          (let elapsed = time_Since now (last_t cl)
           in if window rl \<le> elapsed then
                (True, rl\<lparr>clients := (clients rl)(ip \<mapsto> cl\<lparr>tokens := rate rl - 1, last_t := now\<rparr>)\<rparr>)
              else if 0 < tokens cl then
                (True, rl\<lparr>clients := (clients rl)(ip \<mapsto> cl\<lparr>tokens := tokens cl - 1\<rparr>)\<rparr>)
              else (False, rl)))"

text \<open>
  \<^verbatim>\<open>rateLimiter.cleanup\<close>: every record is tested on its own and deleted when
  the test holds, so the iteration order of the map does not matter.
\<close>

definition cleanup :: "rateLimiter \<Rightarrow> int \<Rightarrow> rateLimiter" where
  "cleanup rl now =
     rl\<lparr>clients :=
          (\<lambda>ip. case clients rl ip of
                   None \<Rightarrow> None
                 | Some cl \<Rightarrow>
                     if wrap64 (window rl * 5) < time_Since now (last_t cl) then None
                     else Some cl)\<rparr>"

text \<open>Consecutive calls of \<open>allow\<close> for one address, at the given clock readings.\<close>

fun allow_seq :: "rateLimiter \<Rightarrow> string \<Rightarrow> int list \<Rightarrow> bool list \<times> rateLimiter" where
  "allow_seq rl ip [] = ([], rl)"
| "allow_seq rl ip (t # ts) =
     (let (ok, rl1) = allow rl ip t;
          (oks, rl2) = allow_seq rl1 ip ts
      in (ok # oks, rl2))"

text \<open>
  \<^verbatim>\<open>middleware.auth\<close> and \<^verbatim>\<open>middleware.rateLimit\<close>. The wrapped handler
  \<open>next\<close> works on the response writer and the outside world; the limiter's client map
  is reached through the middleware only, so \<open>rateLimit\<close> returns the middleware it
  leaves behind next to the handler's result.
\<close>

definition body_Unauthorized :: string where
  \<open>body_Unauthorized = ''{"error":"Unauthorized"}''\<close>

definition body_RateLimitExceeded :: string where
  \<open>body_RateLimitExceeded = ''{"error":"Rate limit exceeded"}''\<close>

definition auth :: "middleware \<Rightarrow> handlerFunc \<Rightarrow> handlerFunc" where
  "auth m next w r st =
     (if apiKey m = [] then next w r st
      else
        let key = header_Get (Header r) ''X-Api-Key''
        in if key \<noteq> apiKey m then
             (http_Error w body_Unauthorized StatusUnauthorized, st)
           else next w r st)"

definition rateLimit ::
  "middleware \<Rightarrow> int \<Rightarrow> handlerFunc \<Rightarrow> responseWriter \<Rightarrow> request \<Rightarrow> world
     \<Rightarrow> (responseWriter \<times> world) \<times> middleware" where
  "rateLimit m now next w r st =
     (if rate (rateLimiter m) = 0 then (next w r st, m)
      else
        let clientIP = RemoteAddr r;
            (ok, rl) = allow (rateLimiter m) clientIP now;
            m1 = m\<lparr>rateLimiter := rl\<rparr>
        in if \<not> ok then
             ((http_Error w body_RateLimitExceeded StatusTooManyRequests, st), m1)
           else (next w r st, m1))"

text \<open>
  Consecutive requests through \<open>rateLimit next\<close>, each with a fresh response writer,
  at the given clock readings: the status of each response and the final state.
\<close>

definition emptyWriter :: responseWriter where
  "emptyWriter = \<lparr>w_header = Map.empty, w_status = None, w_body = []\<rparr>"

fun rateLimit_seq ::
  "middleware \<Rightarrow> handlerFunc \<Rightarrow> (int \<times> request) list \<Rightarrow> world
     \<Rightarrow> responseWriter list \<times> world \<times> middleware" where
  "rateLimit_seq m next [] st = ([], st, m)"
| "rateLimit_seq m next ((now, r) # rest) st =
     (let ((w1, st1), m1) = rateLimit m now next emptyWriter r st;
          (ws, st2, m2) = rateLimit_seq m1 next rest st1
      in (w1 # ws, st2, m2))"

text \<open>The same requests handed to \<open>next\<close> directly, without the gate.\<close>

fun handler_seq :: "handlerFunc \<Rightarrow> request list \<Rightarrow> world \<Rightarrow> responseWriter list \<times> world" where
  "handler_seq next [] st = ([], st)"
| "handler_seq next (r # rest) st =
     (let (w1, st1) = next emptyWriter r st;
          (ws, st2) = handler_seq next rest st1
      in (w1 # ws, st2))"

text \<open>The middleware with the record of one address replaced.\<close>

definition set_client :: "middleware \<Rightarrow> string \<Rightarrow> clientLimiter \<Rightarrow> middleware" where
  "set_client m ip cl =
     m\<lparr>rateLimiter := (rateLimiter m)\<lparr>clients := (clients (rateLimiter m))(ip \<mapsto> cl)\<rparr>\<rparr>"

section \<open>The embedding service (\<^verbatim>\<open>internal/embedding/service.go\<close>)\<close>

text \<open>\<^verbatim>\<open>NewService\<close> fixes the model name, with a default for the empty string.\<close>

definition modelName :: "env \<Rightarrow> string" where
  "modelName e =
     (if Model_EmbeddingModel (cfg e) = [] then ''gemini-embedding-001''
      else Model_EmbeddingModel (cfg e))"

definition len_opt :: "'a list option \<Rightarrow> nat" where
  "len_opt xs = (case xs of None \<Rightarrow> 0 | Some ys \<Rightarrow> length ys)"

definition EmbedQuery :: "env \<Rightarrow> string \<Rightarrow> world \<Rightarrow> (err + float32 list) \<times> world" where
  "EmbedQuery e query st =
     (let contents = [query];
          st1 = called (Call_EmbedContent (modelName e) contents) st
      in case Models_EmbedContent e (modelName e) contents of
           Inl er \<Rightarrow> (Inl (''embed content failed: '' @ er), st1)
         | Inr result \<Rightarrow>
             (case Embeddings result of
                None \<Rightarrow> (Inl ''no embeddings returned'', st1)
              | Some [] \<Rightarrow> (Inl ''no embeddings returned'', st1)
              | Some (v # _) \<Rightarrow> (Inr v, st1)))"

definition EmbedDocuments ::
  "env \<Rightarrow> string list \<Rightarrow> world \<Rightarrow> (err + float32 list list) \<times> world" where
  "EmbedDocuments e documents st =
     (let contents = documents;
          st1 = called (Call_EmbedContent (modelName e) contents) st
      in case Models_EmbedContent e (modelName e) contents of
           Inl er \<Rightarrow> (Inl (''embed content failed: '' @ er), st1)
         | Inr result \<Rightarrow>
             if Embeddings result = None \<or> len_opt (Embeddings result) \<noteq> length documents then
               (Inl (''unexpected number of embeddings: got '' @ showNat (len_opt (Embeddings result))
                      @ '', expected '' @ showNat (length documents)), st1)
             else
               (case Embeddings result of
                  None \<Rightarrow> (Inr [], st1)
                | Some embeddings \<Rightarrow> (Inr embeddings, st1)))"

section \<open>The Qdrant client\<close>

text \<open>
  \<^verbatim>\<open>Client.Upsert\<close>. The payload starts with the entry \<^verbatim>\<open>content\<close> and
  then takes every metadata entry, a later assignment replacing an earlier one under the
  same key; the keys of a map are distinct, so the order of the range loop is immaterial
  and the loop is the map override \<open>++\<close>.
\<close>

definition upsert_payload :: "Document \<Rightarrow> (string \<rightharpoonup> pbValue)" where
  "upsert_payload doc =
     [''content'' \<mapsto> StringValue (doc_Content doc)]
       ++ (\<lambda>k. map_option StringValue (doc_Metadata doc k))"

definition upsert_vectors :: "Document \<Rightarrow> (string \<rightharpoonup> pbVector)" where
  "upsert_vectors doc =
     (case Sparse doc of
        None \<Rightarrow> [''dense'' \<mapsto> \<lparr>vec_Data = Dense doc, vec_Indices = None\<rparr>]
      | Some sp \<Rightarrow>
          [''dense'' \<mapsto> \<lparr>vec_Data = Dense doc, vec_Indices = None\<rparr>,
           ''sparse'' \<mapsto> \<lparr>vec_Data = sv_Values sp, vec_Indices = Some (sv_Indices sp)\<rparr>])"

fun upsert_points :: "env \<Rightarrow> Document list \<Rightarrow> nat \<Rightarrow> PointStruct list \<times> nat" where
  "upsert_points e [] u = ([], u)"
| "upsert_points e (doc # docs) u =
     (let (id, u1) = (if doc_ID doc = [] then (uuid_New e u, Suc u) else (doc_ID doc, u));
          point = \<lparr>ps_Id = id, ps_Vectors = upsert_vectors doc, ps_Payload = upsert_payload doc\<rparr>;
          (points, u2) = upsert_points e docs u1
      in (point # points, u2))"

definition Upsert :: "env \<Rightarrow> string \<Rightarrow> Document list \<Rightarrow> world \<Rightarrow> err option \<times> world" where
  "Upsert e collection docs st =
     (let (points, u) = upsert_points e docs (uuids_used st);
          rq = \<lparr>up_CollectionName = collection, up_Points = points\<rparr>;
          st1 = called (Call_Upsert rq) (st\<lparr>uuids_used := u\<rparr>)
      in case points_Upsert e rq of
           Some er \<Rightarrow> (Some (''failed to upsert points: '' @ er), st1)
         | None \<Rightarrow> (None, st1))"

text \<open>
  \<^verbatim>\<open>Client.HybridSearch\<close>. Each payload entry is looked at on its own: a non-empty
  string under \<^verbatim>\<open>content\<close> becomes the result's content, a non-empty string under
  any other key goes to the result's payload.
\<close>

definition toSearchResult :: "ScoredPoint \<Rightarrow> SearchResult" where
  "toSearchResult point =
     \<lparr>sr_ID = GetUuid (sp_Id point),
      sr_Score = sp_Score point,
      sr_Content = (case sp_Payload point ''content'' of
                      None \<Rightarrow> []
                    | Some v \<Rightarrow> GetStringValue v),
      sr_Payload = (\<lambda>k. if k = ''content'' then None
                         else case sp_Payload point k of
                                None \<Rightarrow> None
                              | Some v \<Rightarrow> if GetStringValue v \<noteq> [] then Some (GetStringValue v)
                                         else None)\<rparr>"

definition hybrid_query ::
  "string \<Rightarrow> float32 list \<Rightarrow> SparseVector option \<Rightarrow> 64 word \<Rightarrow> QueryPoints" where
  "hybrid_query collection denseVector sparseVector topK =
     (let prefetch = [\<lparr>pf_Nearest = VectorInput_Dense denseVector, pf_Using = ''dense'',
                       pf_Limit = topK\<rparr>];
          prefetch = (case sparseVector of
                        None \<Rightarrow> prefetch
                      | Some sp \<Rightarrow>
                          prefetch @ [\<lparr>pf_Nearest = VectorInput_Sparse (sv_Indices sp) (sv_Values sp),
                                       pf_Using = ''sparse'', pf_Limit = topK\<rparr>]);
          limit = topK
      in \<lparr>qp_CollectionName = collection, qp_Prefetch = prefetch, qp_Fusion = Fusion_RRF,
          qp_Limit = limit, qp_WithPayload = True\<rparr>)"

definition HybridSearch ::
  "env \<Rightarrow> string \<Rightarrow> float32 list \<Rightarrow> SparseVector option \<Rightarrow> 64 word \<Rightarrow> world
     \<Rightarrow> (err + SearchResult list) \<times> world" where
  "HybridSearch e collection denseVector sparseVector topK st =
     (let rq = hybrid_query collection denseVector sparseVector topK;
          st1 = called (Call_Query rq) st
      in case points_Query e rq of
           Inl er \<Rightarrow> (Inl (''failed to search: '' @ er), st1)
         | Inr result \<Rightarrow> (Inr (map toSearchResult result), st1))"

section \<open>The agent factory\<close>

text \<open>
  \<^verbatim>\<open>Factory.Retrieve\<close> returns a pointer and an error: a context and no error, or
  nil and the error.
\<close>

definition Retrieve ::
  "env \<Rightarrow> string \<Rightarrow> world \<Rightarrow> (RetrievedContext option \<times> err option) \<times> world" where
  "Retrieve e query st =
     (let topK = Retriever_TopK (cfg e);
          topK = (if topK \<le> 0 then 10 else topK);
          (qv, st1) = EmbedQuery e query st
      in case qv of
           Inl er \<Rightarrow> ((None, Some (''embedding query failed: '' @ er)), st1)
         | Inr queryVector \<Rightarrow>
             (let (res, st2) = HybridSearch e (VectorStore_Collection (cfg e)) queryVector None
                                 (word_of_int topK) st1
              in case res of
                   Inl er \<Rightarrow> ((None, Some (''retrieval failed: '' @ er)), st2)
                 | Inr results \<Rightarrow>
                     ((Some \<lparr>Documents = results, rc_Query = query\<rparr>, None), st2)))"

text \<open>The loop of \<^verbatim>\<open>NewRunner\<close> over the retrieved documents, \<open>i\<close> counting from 0.\<close>

fun context_docs :: "env \<Rightarrow> nat \<Rightarrow> SearchResult list \<Rightarrow> string" where
  "context_docs e i [] = []"
| "context_docs e i (doc # docs) =
     ''### Document '' @ showNat (i + 1) @ '' (Score: '' @ fmt_float2 e (sr_Score doc) @ '')'' @ nl
       @ sr_Content doc @ nl @ nl @ context_docs e (Suc i) docs"

definition context_header :: string where
  "context_header = nl @ nl @ ''## Retrieved Knowledge Base Documents'' @ nl @ nl"

definition contextBuilder :: "env \<Rightarrow> RetrievedContext option \<Rightarrow> string" where
  "contextBuilder e retrieved =
     (case retrieved of
        None \<Rightarrow> []
      | Some rc \<Rightarrow>
          if 0 < length (Documents rc) then context_header @ context_docs e 0 (Documents rc)
          else [])"

definition strategy :: string where
  "strategy =
     ''STRATEGY:'' @ nl
     @ ''1. First, analyze the retrieved documents above to answer the user's question.'' @ nl
     @ ''2. If the retrieved documents contain sufficient information, use them to formulate your answer.'' @ nl
     @ ''3. If the retrieved documents are insufficient or the topic requires current/real-time information, use google_search.'' @ nl
     @ ''4. Always indicate whether your answer comes from internal documents or web search.'' @ nl
     @ ''5. Cite sources when possible.'' @ nl"

definition instruction :: "env \<Rightarrow> RetrievedContext option \<Rightarrow> string" where
  "instruction e retrieved =
     Agent_Instruction (cfg e) @ nl @ nl @ contextBuilder e retrieved @ nl @ nl @ strategy"

definition NewRunner ::
  "env \<Rightarrow> string \<Rightarrow> RetrievedContext option \<Rightarrow> world \<Rightarrow> (err + runnerConfig) \<times> world" where
  "NewRunner e appName retrieved st =
     (let ragAgent = \<lparr>ag_Name = Agent_Name (cfg e),
                      ag_Description = Agent_Description (cfg e),
                      ag_Instruction = instruction e retrieved,
                      ag_Tools = [GoogleSearch]\<rparr>;
          st1 = called (Call_AgentNew ragAgent) st
      in case llmagent_New e ragAgent of
           Some er \<Rightarrow> (Inl (''failed to create agent: '' @ er), st1)
         | None \<Rightarrow>
             (let rc = \<lparr>rn_AppName = appName, rn_Agent = ragAgent\<rparr>;
                  st2 = called (Call_RunnerNew rc) st1
              in case runner_New e rc of
                   Some er \<Rightarrow> (Inl (''failed to create runner: '' @ er), st2)
                 | None \<Rightarrow> (Inr rc, st2)))"

section \<open>The handlers (\<^verbatim>\<open>internal/api/server.go\<close>)\<close>

definition writeJSON :: "responseWriter \<Rightarrow> nat \<Rightarrow> jsonValue \<Rightarrow> responseWriter" where
  "writeJSON w status data =
     (let w1 = header_Set w ''Content-Type'' ''application/json'';
          w2 = WriteHeader w1 status
      in Write w2 (Json data))"

definition writeError :: "responseWriter \<Rightarrow> nat \<Rightarrow> string \<Rightarrow> responseWriter" where
  "writeError w status message = writeJSON w status (JMap [(''error'', message)])"

definition handleHealth :: handlerFunc where
  "handleHealth w r st =
     (let w1 = header_Set w ''Content-Type'' ''application/json''
      in (Write w1 (Json (JMap [(''status'', ''healthy'')])), st))"

text \<open>
  The loop of \<^verbatim>\<open>handleUploadText\<close> over the chunks: \<open>i\<close> is the index, \<open>u\<close>
  the number of identifiers drawn so far. \<^verbatim>\<open>docs[i]\<close> and \<^verbatim>\<open>chunkIDs[i]\<close> are
  assigned for \<open>i = 0, 1, ...\<close>, so both slices are built front to back.
  \<^verbatim>\<open>embeddings[i]\<close> panics when \<open>i\<close> is out of range: the result is \<open>None\<close>.
\<close>

definition merge_metadata :: "UploadTextRequest \<Rightarrow> nat \<Rightarrow> (string \<rightharpoonup> string)" where
  "merge_metadata req i =
     (let metadata = Map.empty ++ ut_Metadata req;
          metadata = (if Source req \<noteq> [] then metadata(''source'' \<mapsto> Source req) else metadata)
      in metadata(''chunk_index'' \<mapsto> showNat i))"

fun upload_docs ::
  "env \<Rightarrow> UploadTextRequest \<Rightarrow> float32 list list \<Rightarrow> nat \<Rightarrow> string list \<Rightarrow> nat
     \<Rightarrow> ((Document list \<times> string list) \<times> nat) option" where
  "upload_docs e req embeddings i [] u = Some (([], []), u)"
| "upload_docs e req embeddings i (chunk # chunks) u =
     (let id = uuid_New e u;
          metadata = merge_metadata req i
      in if i < length embeddings then
           (case upload_docs e req embeddings (Suc i) chunks (Suc u) of
              None \<Rightarrow> None
            | Some ((docs, chunkIDs), u1) \<Rightarrow>
                Some ((\<lparr>doc_ID = id, doc_Content = chunk, doc_Metadata = metadata,
                        Dense = embeddings ! i, Sparse = None\<rparr> # docs,
                       id # chunkIDs), u1))
         else None)"

definition handleUploadText :: "env \<Rightarrow> handlerFunc" where
  "handleUploadText e w r st =
     (case decode_UploadTextRequest e (Body r) of
        Inl er \<Rightarrow> (writeError w StatusBadRequest (''Invalid request body: '' @ er), st)
      | Inr req \<Rightarrow>
          if Text req = [] then (writeError w StatusBadRequest ''Text field is required'', st)
          else
            (let st1 = called (Call_SplitText (Text req)) st
             in case splitter_SplitText e (Text req) of
                  Inl er \<Rightarrow>
                    (writeError w StatusInternalServerError (''Failed to split text: '' @ er), st1)
                | Inr chunks \<Rightarrow>
                    if length chunks = 0 then
                      (writeError w StatusBadRequest ''No chunks generated from text'', st1)
                    else
                      (let (emb, st2) = EmbedDocuments e chunks st1
                       in case emb of
                            Inl er \<Rightarrow>
                              (writeError w StatusInternalServerError
                                 (''Failed to generate embeddings: '' @ er), st2)
                          | Inr embeddings \<Rightarrow>
                              (case upload_docs e req embeddings 0 chunks (uuids_used st2) of
                                 None \<Rightarrow> (w, st2\<lparr>panicked := Some ''index out of range''\<rparr>)
                               | Some ((docs, chunkIDs), u) \<Rightarrow>
                                   (let (uerr, st3) =
                                          Upsert e (VectorStore_Collection (cfg e)) docs
                                            (st2\<lparr>uuids_used := u\<rparr>)
                                    in case uerr of
                                         Some er \<Rightarrow>
                                           (writeError w StatusInternalServerError
                                              (''Failed to store documents: '' @ er), st3)
                                       | None \<Rightarrow>
                                           (writeJSON w StatusOK
                                              (JUploadTextResponse
                                                 \<lparr>ur_Message = ''Text uploaded and chunked successfully'',
                                                  ChunkCount = length chunks,
                                                  ChunkIDs = chunkIDs\<rparr>), st3))))))"

definition toItem :: "SearchResult \<Rightarrow> SearchResultItem" where
  "toItem r = \<lparr>it_ID = sr_ID r, it_Content = sr_Content r, it_Score = sr_Score r,
               it_Metadata = sr_Payload r\<rparr>"

definition handleSearch :: "env \<Rightarrow> handlerFunc" where
  "handleSearch e w r st =
     (case decode_SearchRequest e (Body r) of
        Inl er \<Rightarrow> (writeError w StatusBadRequest (''Invalid request body: '' @ er), st)
      | Inr req \<Rightarrow>
          if sq_Query req = [] then (writeError w StatusBadRequest ''Query field is required'', st)
          else
            (let topK = TopK req;
                 topK = (if topK \<le> 0 then Retriever_TopK (cfg e) else topK);
                 (qv, st1) = EmbedQuery e (sq_Query req) st
             in case qv of
                  Inl er \<Rightarrow>
                    (writeError w StatusInternalServerError
                       (''Failed to generate query embedding: '' @ er), st1)
                | Inr queryVector \<Rightarrow>
                    (let (res, st2) = HybridSearch e (VectorStore_Collection (cfg e)) queryVector
                                        None (word_of_int topK) st1
                     in case res of
                          Inl er \<Rightarrow>
                            (writeError w StatusInternalServerError (''Search failed: '' @ er), st2)
                        | Inr results \<Rightarrow>
                            (writeJSON w StatusOK
                               (JSearchResponse \<lparr>Results = map toItem results\<rparr>), st2))))"

text \<open>
  The loop of \<^verbatim>\<open>handleChat\<close> over the generator's stream: the first error ends
  it, an event without content is skipped, every non-empty part is appended.
\<close>

fun run_events :: "(err + Event) list \<Rightarrow> string \<Rightarrow> err + string" where
  "run_events [] responseText = Inr responseText"
| "run_events (Inl er # rest) responseText = Inl er"
| "run_events (Inr event # rest) responseText =
     (case ev_Parts event of
        None \<Rightarrow> run_events rest responseText
      | Some parts \<Rightarrow>
          run_events rest (foldl (\<lambda>acc p. if p \<noteq> [] then acc @ p else acc) responseText parts))"

definition handleChat :: "env \<Rightarrow> handlerFunc" where
  "handleChat e w r st =
     (case decode_ChatRequest e (Body r) of
        Inl er \<Rightarrow> (writeError w StatusBadRequest (''Invalid request body: '' @ er), st)
      | Inr req \<Rightarrow>
          if cq_Message req = [] then
            (writeError w StatusBadRequest ''Message field is required'', st)
          else
            (let userID = (if UserID req = [] then ''default_user'' else UserID req);
                 (sid, st1) =
                   (if cq_SessionID req = [] then
                      (sessionService_Create e ''agentic_rag_go'' userID,
                       called (Call_SessionCreate ''agentic_rag_go'' userID) st)
                    else (Inr (cq_SessionID req), st))
             in case sid of
                  Inl er \<Rightarrow>
                    (writeError w StatusInternalServerError
                       (''Failed to create session: '' @ er), st1)
                | Inr sessionID \<Rightarrow>
                    (let ((retrieved, rerr), st2) = Retrieve e (cq_Message req) st1;
                         (rn, st3) = NewRunner e ''agentic_rag_go'' retrieved st2
                     in case rn of
                          Inl er \<Rightarrow>
                            (writeError w StatusInternalServerError
                               (''Failed to create runner: '' @ er), st3)
                        | Inr runner \<Rightarrow>
                            (let st4 = called (Call_RunnerRun runner userID sessionID
                                                 (cq_Message req)) st3
                             in case run_events (runner_Run e runner userID sessionID
                                                   (cq_Message req)) [] of
                                  Inl er \<Rightarrow>
                                    (writeError w StatusInternalServerError
                                       (''Agent error: '' @ er), st4)
                                | Inr responseText \<Rightarrow>
                                    (writeJSON w StatusOK
                                       (JChatResponse \<lparr>Response = responseText,
                                                       cr_SessionID = sessionID\<rparr>), st4)))))"

definition handleUploadTextV2 :: "env \<Rightarrow> handlerFunc" where
  "handleUploadTextV2 e w r st = handleUploadText e w r st"

definition handleSearchV2 :: "env \<Rightarrow> handlerFunc" where
  "handleSearchV2 e w r st = handleSearch e w r st"

definition handleChatV2 :: "env \<Rightarrow> handlerFunc" where
  "handleChatV2 e w r st = handleChat e w r st"

section \<open>Routing (\<^verbatim>\<open>registerRoutes\<close>, \<^verbatim>\<open>ServeHTTP\<close>, \<^verbatim>\<open>NewServer\<close>)\<close>

text \<open>
  A registered handler runs at a clock reading on the response writer, the request and
  the server's state: the middleware (with the limiter's client map) and the world.
  \<open>gated h\<close> is \<^verbatim>\<open>s.middleware.rateLimit(s.middleware.auth(h))\<close>.
\<close>

type_synonym routeHandler =
  "int \<Rightarrow> responseWriter \<Rightarrow> request \<Rightarrow> middleware \<times> world \<Rightarrow> responseWriter \<times> middleware \<times> world"

definition gated :: "handlerFunc \<Rightarrow> routeHandler" where
  "gated h now w r s =
     (let ((w1, st1), m1) = rateLimit (fst s) now (auth (fst s) h) w r (snd s)
      in (w1, m1, st1))"

definition ungated :: "handlerFunc \<Rightarrow> routeHandler" where
  "ungated h now w r s = (let (w1, st1) = h w r (snd s) in (w1, fst s, st1))"

text \<open>A pattern \<^verbatim>\<open>"METHOD /path"\<close> is kept as its method and its path.\<close>

type_synonym route = "string \<times> string \<times> routeHandler"

definition registerRoutes :: "env \<Rightarrow> string \<Rightarrow> route list" where
  "registerRoutes e apiVersion =
     (let v1Prefix = ''/api/'' @ apiVersion
      in [(''GET'', ''/health'', ungated handleHealth),
          (''POST'', v1Prefix @ ''/upload_text'', gated (handleUploadText e)),
          (''POST'', v1Prefix @ ''/search'', gated (handleSearch e)),
          (''POST'', v1Prefix @ ''/chat'', gated (handleChat e)),
          (''POST'', v1Prefix @ ''/documents/upload'', gated (handleUploadTextV2 e)),
          (''POST'', v1Prefix @ ''/documents/search'', gated (handleSearchV2 e)),
          (''POST'', v1Prefix @ ''/conversations/chat'', gated (handleChatV2 e)),
          (''GET'', ''/docs/'', ungated (httpSwagger_Handler e))])"

text \<open>
  \<^verbatim>\<open>http.ServeMux\<close>, as far as these patterns need it: a pattern whose path ends
  in a slash matches every path below it, any other pattern matches its path only; a
  \<^verbatim>\<open>GET\<close> pattern also serves \<^verbatim>\<open>HEAD\<close>. No two registered patterns match
  the same request. A path that matches under another method only is answered 405 (the
  \<^verbatim>\<open>Allow\<close> header is left out), any other request 404.
\<close>

definition path_matches :: "string \<Rightarrow> string \<Rightarrow> bool" where
  "path_matches pat p =
     (if pat \<noteq> [] \<and> last pat = CHR ''/'' then take (length pat) p = pat else p = pat)"

definition method_matches :: "string \<Rightarrow> string \<Rightarrow> bool" where
  "method_matches pm m = (pm = m \<or> (pm = ''GET'' \<and> m = ''HEAD''))"

definition mux_ServeHTTP :: "route list \<Rightarrow> routeHandler" where
  "mux_ServeHTTP routes now w r s =
     (case find (\<lambda>(pm, pp, h). method_matches pm (Method r) \<and> path_matches pp (URL_Path r)) routes of
        Some (pm, pp, h) \<Rightarrow> h now w r s
      | None \<Rightarrow>
          if list_ex (\<lambda>(pm, pp, h). path_matches pp (URL_Path r)) routes then
            (http_Error w ''Method Not Allowed'' StatusMethodNotAllowed, s)
          else (http_Error w ''404 page not found'' StatusNotFound, s))"

record Server =
  mux :: "route list"
  apiVersion :: string

text \<open>
  \<^verbatim>\<open>NewServer\<close>, once the Qdrant client, the collection and the agent factory are
  set up: the server value, and the middleware it starts with. Nothing else is started.
\<close>

definition NewServer :: "env \<Rightarrow> Server \<times> middleware" where
  "NewServer e =
     (\<lparr>mux = registerRoutes e ''v1'', apiVersion = ''v1''\<rparr>,
      newMiddleware (Server_APIKey (cfg e)) (Server_RateLimit (cfg e))
        (wrap64 (wrap64 (Server_RateWindow (cfg e)) * time_Second)))"

definition ServeHTTP :: "Server \<Rightarrow> routeHandler" where
  "ServeHTTP s now w r st =
     (let w1 = header_Set w ''Access-Control-Allow-Origin'' ''*'';
          w2 = header_Set w1 ''Access-Control-Allow-Methods'' ''GET, POST, OPTIONS'';
          w3 = header_Set w2 ''Access-Control-Allow-Headers'' ''Content-Type''
      in if Method r = ''OPTIONS'' then (WriteHeader w3 StatusOK, st)
         else mux_ServeHTTP (mux s) now w3 r st)"

text \<open>
  The running server: requests arrive one after the other, each at a clock reading and
  each answered on a fresh response writer. This is every step the process takes on its
  state after \<^verbatim>\<open>NewServer\<close>.
\<close>

fun serve_all ::
  "Server \<Rightarrow> (int \<times> request) list \<Rightarrow> middleware \<times> world
     \<Rightarrow> responseWriter list \<times> middleware \<times> world" where
  "serve_all s [] st = ([], st)"
| "serve_all s ((now, r) # rest) st =
     (let (w1, st1) = ServeHTTP s now emptyWriter r st;
          (ws, st2) = serve_all s rest st1
      in (w1 # ws, st2))"

section \<open>Concrete inputs\<close>

text \<open>Small inputs at which the theorems below are instantiated.\<close>

definition ex_world :: world where
  "ex_world = \<lparr>calls = [], uuids_used = 0, panicked = None\<rparr>"

definition ex_request :: "string \<Rightarrow> request" where
  "ex_request addr =
     \<lparr>Method = ''POST'', URL_Path = ''/api/v1/search'', Header = Map.empty, RemoteAddr = addr,
      Body = []\<rparr>"

definition ex_cfg :: config where
  "ex_cfg =
     \<lparr>Server_APIKey = [], Server_RateLimit = 2, Server_RateWindow = 1,
      VectorStore_Collection = ''documents'', Retriever_TopK = 5, Model_EmbeddingModel = [],
      Agent_Name = ''rag_agent'', Agent_Description = ''answers from documents'',
      Agent_Instruction = ''You are a helpful assistant.''\<rparr>"

text \<open>
  A toy environment: a request body stands for its own text, query or message (the
  empty body does not decode), the splitter returns the text as one chunk, the provider
  returns one vector per text, and the index and the generator answer without error.
\<close>

definition ex_env :: env where
  "ex_env =
     \<lparr>cfg = ex_cfg,
      decode_UploadTextRequest =
        (\<lambda>b. if b = [] then Inl ''EOF''
             else Inr \<lparr>Text = b, ut_Metadata = Map.empty, Source = []\<rparr>),
      decode_SearchRequest =
        (\<lambda>b. if b = [] then Inl ''EOF'' else Inr \<lparr>sq_Query = b, TopK = 0\<rparr>),
      decode_ChatRequest =
        (\<lambda>b. if b = [] then Inl ''EOF''
             else Inr \<lparr>cq_Message = b, cq_SessionID = ''s1'', UserID = []\<rparr>),
      splitter_SplitText = (\<lambda>t. Inr [t]),
      Models_EmbedContent = (\<lambda>m ts. Inr \<lparr>Embeddings = Some (map (\<lambda>t. [Float32 0]) ts)\<rparr>),
      points_Upsert = (\<lambda>rq. None),
      points_Query = (\<lambda>rq. Inr []),
      sessionService_Create = (\<lambda>app user. Inr ''s1''),
      llmagent_New = (\<lambda>c. None),
      runner_New = (\<lambda>c. None),
      runner_Run = (\<lambda>rc user sess msg. [Inr \<lparr>ev_Parts = Some [''hello'']\<rparr>]),
      uuid_New = (\<lambda>n. ''id-'' @ showNat n),
      fmt_float2 = (\<lambda>x. ''0.00''),
      httpSwagger_Handler = (\<lambda>w r st. (w, st))\<rparr>"

text \<open>The points of every upsert call a world has seen.\<close>

definition upserted_points :: "world \<Rightarrow> PointStruct list" where
  "upserted_points st =
     concat (map (\<lambda>c. case c of Call_Upsert rq \<Rightarrow> up_Points rq | _ \<Rightarrow> []) (calls st))"

text \<open>Upload requests whose caller metadata sets \<^verbatim>\<open>source\<close> or \<^verbatim>\<open>content\<close>.\<close>

definition ex_forged_request :: UploadTextRequest where
  "ex_forged_request =
     \<lparr>Text = ''chunk text'', ut_Metadata = [''source'' \<mapsto> ''forged''], Source = []\<rparr>"

definition ex_forged_env :: env where
  "ex_forged_env = ex_env\<lparr>decode_UploadTextRequest := (\<lambda>b. Inr ex_forged_request)\<rparr>"

definition ex_override_request :: UploadTextRequest where
  "ex_override_request =
     \<lparr>Text = ''chunk text'', ut_Metadata = [''content'' \<mapsto> ''override''],
      Source = ''notes.txt''\<rparr>"

definition ex_plain_request :: UploadTextRequest where
  "ex_plain_request = \<lparr>Text = ''chunk text'', ut_Metadata = Map.empty, Source = []\<rparr>"

definition ex_plain_env :: env where
  "ex_plain_env = ex_env\<lparr>decode_UploadTextRequest := (\<lambda>b. Inr ex_plain_request)\<rparr>"

definition ex_post :: "string \<Rightarrow> request" where
  "ex_post p =
     \<lparr>Method = ''POST'', URL_Path = p, Header = Map.empty, RemoteAddr = ''10.0.0.1:9'',
      Body = ''some text''\<rparr>"

definition ex_get :: "string \<Rightarrow> request" where
  "ex_get p =
     \<lparr>Method = ''GET'', URL_Path = p, Header = Map.empty, RemoteAddr = ''10.0.0.1:9'',
      Body = []\<rparr>"

definition ex_start :: "middleware \<times> world" where
  "ex_start = (snd (NewServer ex_env), ex_world)"

text \<open>The three CORS headers \<^verbatim>\<open>ServeHTTP\<close> sets on every response.\<close>

definition cors :: "responseWriter \<Rightarrow> responseWriter" where
  "cors w =
     header_Set (header_Set (header_Set w ''Access-Control-Allow-Origin'' ''*'')
                   ''Access-Control-Allow-Methods'' ''GET, POST, OPTIONS'')
       ''Access-Control-Allow-Headers'' ''Content-Type''"

text \<open>A search request from a second address.\<close>

definition ex_other :: request where
  "ex_other = (ex_post ''/api/v1/search'')\<lparr>RemoteAddr := ''10.0.0.2:9''\<rparr>"

section \<open>Fusion in the vector index\<close>

text \<open>
  Modelled from the spec: the fused score the vector index computes for a query with
  \<^verbatim>\<open>Fusion_RRF\<close>. The index is an external service and no fusion code is in the
  repository; \<^verbatim>\<open>Client.HybridSearch\<close> sends the sub-queries and copies the score
  of each returned point. Following the spec, the fused score of a candidate is the sum,
  over the ranked sub-lists in which it appears, of \<open>1 / (rank + constant)\<close>; a
  sub-list that does not hold the candidate adds nothing. The rank is the position in
  the sub-list, counted from 0, and the scores are rational numbers (the rounding of the
  index's \<^verbatim>\<open>float32\<close> arithmetic is not part of the spec's formula).
\<close>

fun rank_in :: "'a \<Rightarrow> 'a list \<Rightarrow> nat option" where
  "rank_in x [] = None"
| "rank_in x (y # ys) = (if x = y then Some 0 else map_option Suc (rank_in x ys))"

definition rrf_term :: "rat \<Rightarrow> nat option \<Rightarrow> rat" where
  "rrf_term c r = (case r of None \<Rightarrow> 0 | Some k \<Rightarrow> 1 / (of_nat k + c))"

definition rrf_score :: "rat \<Rightarrow> 'a list list \<Rightarrow> 'a \<Rightarrow> rat" where
  "rrf_score c ranked x = sum_list (map (\<lambda>l. rrf_term c (rank_in x l)) ranked)"

section \<open>Rate limiting\<close>

lemma allow_fresh:
  "clients rl ip = None \<Longrightarrow>
   allow rl ip now = (True, rl\<lparr>clients := (clients rl)(ip \<mapsto> \<lparr>tokens = rate rl - 1, last_t = now\<rparr>)\<rparr>)"
  by (simp add: allow_def)

lemma allow_within:
  "clients rl ip = Some cl \<Longrightarrow> time_Since now (last_t cl) < window rl \<Longrightarrow> 0 < tokens cl \<Longrightarrow>
   allow rl ip now = (True, rl\<lparr>clients := (clients rl)(ip \<mapsto> cl\<lparr>tokens := tokens cl - 1\<rparr>)\<rparr>)"
  by (simp add: allow_def Let_def)

lemma allow_exhausted:
  "clients rl ip = Some cl \<Longrightarrow> time_Since now (last_t cl) < window rl \<Longrightarrow> tokens cl \<le> 0 \<Longrightarrow>
   allow rl ip now = (False, rl)"
  by (simp add: allow_def Let_def)

lemma allow_reset:
  "clients rl ip = Some cl \<Longrightarrow> window rl \<le> time_Since now (last_t cl) \<Longrightarrow>
   allow rl ip now = (True, rl\<lparr>clients := (clients rl)(ip \<mapsto> cl\<lparr>tokens := rate rl - 1, last_t := now\<rparr>)\<rparr>)"
  by (simp add: allow_def Let_def)

lemma rateLimit_seq_within:
  assumes "rate (rateLimiter m) \<noteq> 0"
    and "clients (rateLimiter m) ip = Some cl"
    and "int (length reqs) \<le> tokens cl"
    and "\<forall>(t, r)\<in>set reqs. RemoteAddr r = ip \<and> time_Since t (last_t cl) < window (rateLimiter m)"
  shows "rateLimit_seq m next reqs st =
           (fst (handler_seq next (map snd reqs) st), snd (handler_seq next (map snd reqs) st),
            set_client m ip (cl\<lparr>tokens := tokens cl - int (length reqs)\<rparr>))"
  using assms
proof (induction reqs arbitrary: m cl st)
  case Nil
  then show ?case by (simp add: set_client_def fun_upd_idem)
next
  case (Cons a reqs)
  obtain t r where a: "a = (t, r)" by (cases a)
  from Cons.prems a have ip: "RemoteAddr r = ip" and tw: "time_Since t (last_t cl) < window (rateLimiter m)"
    and pos: "0 < tokens cl" by auto
  let ?cl1 = "cl\<lparr>tokens := tokens cl - 1\<rparr>"
  let ?m1 = "set_client m ip ?cl1"
  have step: "rateLimit m t next emptyWriter r st = (next emptyWriter r st, ?m1)"
    using Cons.prems(1,2) ip tw pos
    by (simp add: rateLimit_def allow_within set_client_def)
  have IH: "rateLimit_seq ?m1 next reqs st' =
           (fst (handler_seq next (map snd reqs) st'), snd (handler_seq next (map snd reqs) st'),
            set_client ?m1 ip (?cl1\<lparr>tokens := tokens ?cl1 - int (length reqs)\<rparr>))" for st'
    using Cons.prems a by (intro Cons.IH) (auto simp: set_client_def)
  have upd: "set_client ?m1 ip c = set_client m ip c" for c
    by (simp add: set_client_def)
  show ?case
    using step IH upd by (simp add: a split_beta Let_def algebra_simps)
qed


text \<open>
  C1. Let the limiter have rate \<open>R \<ge> 1\<close> and window \<open>W\<close>, and let an address \<open>ip\<close>
  without a record send \<open>R\<close> requests, the first at \<open>t0\<close> and the others less than
  \<open>W\<close> after \<open>t0\<close>. All \<open>R\<close> reach the wrapped handler, exactly as if there were no
  gate; after the first the record holds \<open>R - 1\<close> tokens and the window start \<open>t0\<close>, and
  each later one takes one token. A further request less than \<open>W\<close> after \<open>t0\<close> is
  answered 429 and leaves the world and the limiter as they were. A request at least
  \<open>W\<close> after \<open>t0\<close> reaches the handler again and sets the record to \<open>R - 1\<close> tokens
  and a window starting then.
\<close>

theorem rate_limit_fixed_window:
  fixes m :: middleware and "next" :: handlerFunc
  defines "R \<equiv> rate (rateLimiter m)" and "W \<equiv> window (rateLimiter m)"
  assumes rate_pos: "1 \<le> R"
    and fresh: "clients (rateLimiter m) ip = None"
    and first: "RemoteAddr r0 = ip"
    and len: "int (length reqs) = R - 1"
    and within: "\<forall>(t, r)\<in>set reqs. RemoteAddr r = ip \<and> time_Since t t0 < W"
    and over: "RemoteAddr rR = ip" "time_Since tR t0 < W"
    and later: "RemoteAddr r' = ip" "W \<le> time_Since t' t0"
  shows "\<exists>ws st1 m1.
      rateLimit_seq m next ((t0, r0) # reqs) st = (ws, st1, m1)
    \<and> (ws, st1) = handler_seq next (r0 # map snd reqs) st
    \<and> (\<forall>k\<le>length reqs.
          clients (rateLimiter (snd (snd (rateLimit_seq m next ((t0, r0) # take k reqs) st)))) ip
            = Some \<lparr>tokens = R - 1 - int k, last_t = t0\<rparr>)
    \<and> rateLimit m1 tR next emptyWriter rR st1
          = ((http_Error emptyWriter body_RateLimitExceeded StatusTooManyRequests, st1), m1)
    \<and> w_status (http_Error emptyWriter body_RateLimitExceeded StatusTooManyRequests) = Some 429
    \<and> rateLimit m1 t' next emptyWriter r' st1
          = (next emptyWriter r' st1, set_client m1 ip \<lparr>tokens = R - 1, last_t = t'\<rparr>)"
proof -
  let ?cl0 = "\<lparr>tokens = R - 1, last_t = t0\<rparr>"
  let ?m0 = "set_client m ip ?cl0"
  have nz: "rate (rateLimiter m) \<noteq> 0" using rate_pos by (simp add: R_def)
  have step0: "rateLimit m t0 next emptyWriter r0 st = (next emptyWriter r0 st, ?m0)"
    using nz fresh first by (simp add: rateLimit_def allow_fresh set_client_def R_def)
  have nz0: "rate (rateLimiter ?m0) \<noteq> 0" and cl0: "clients (rateLimiter ?m0) ip = Some ?cl0"
    and W0: "window (rateLimiter ?m0) = W" and R0: "rate (rateLimiter ?m0) = R"
    using nz by (simp_all add: set_client_def W_def R_def)
  have upd: "set_client ?m0 ip c = set_client m ip c" for c
    by (simp add: set_client_def)
  have run: "rateLimit_seq ?m0 next qs st' =
           (fst (handler_seq next (map snd qs) st'), snd (handler_seq next (map snd qs) st'),
            set_client m ip \<lparr>tokens = R - 1 - int (length qs), last_t = t0\<rparr>)"
    if "set qs \<subseteq> set reqs" "length qs \<le> length reqs" for qs st'
  proof -
    have "int (length qs) \<le> tokens ?cl0" using that(2) len by simp
    moreover have "\<forall>(t, r)\<in>set qs. RemoteAddr r = ip \<and> time_Since t (last_t ?cl0) < window (rateLimiter ?m0)"
      using within that(1) W0 by auto
    ultimately show ?thesis
      using rateLimit_seq_within [OF nz0 cl0, of qs "next" st'] by (simp add: upd)
  qed
  define st0 where "st0 = snd (next emptyWriter r0 st)"
  define w0 where "w0 = fst (next emptyWriter r0 st)"
  define ws where "ws = w0 # fst (handler_seq next (map snd reqs) st0)"
  define st1 where "st1 = snd (handler_seq next (map snd reqs) st0)"
  define m1 where "m1 = set_client m ip \<lparr>tokens = 0, last_t = t0\<rparr>"
  have seq: "rateLimit_seq m next ((t0, r0) # qs) st =
      (w0 # fst (handler_seq next (map snd qs) st0), snd (handler_seq next (map snd qs) st0),
       set_client m ip \<lparr>tokens = R - 1 - int (length qs), last_t = t0\<rparr>)"
    if "set qs \<subseteq> set reqs" "length qs \<le> length reqs" for qs
    using step0 run [OF that, of st0] by (simp add: split_beta st0_def w0_def)
  have full: "rateLimit_seq m next ((t0, r0) # reqs) st = (ws, st1, m1)"
    using seq [of reqs] len by (simp add: ws_def st1_def m1_def)
  have direct: "(ws, st1) = handler_seq next (r0 # map snd reqs) st"
    by (simp add: ws_def st1_def w0_def st0_def split_beta)
  have steps: "\<forall>k\<le>length reqs.
          clients (rateLimiter (snd (snd (rateLimit_seq m next ((t0, r0) # take k reqs) st)))) ip
            = Some \<lparr>tokens = R - 1 - int k, last_t = t0\<rparr>"
  proof (intro allI impI)
    fix k assume k: "k \<le> length reqs"
    have "set (take k reqs) \<subseteq> set reqs" by (rule set_take_subset)
    moreover have "length (take k reqs) \<le> length reqs" by simp
    ultimately show "clients (rateLimiter (snd (snd (rateLimit_seq m next ((t0, r0) # take k reqs) st)))) ip
            = Some \<lparr>tokens = R - 1 - int k, last_t = t0\<rparr>"
      using seq [of "take k reqs"] k by (simp add: set_client_def min_def)
  qed
  have nz1: "rate (rateLimiter m1) \<noteq> 0"
    and cl1: "clients (rateLimiter m1) ip = Some \<lparr>tokens = 0, last_t = t0\<rparr>"
    and W1: "window (rateLimiter m1) = W" and R1: "rate (rateLimiter m1) = R"
    using nz by (simp_all add: m1_def set_client_def W_def R_def)
  have reject: "rateLimit m1 tR next emptyWriter rR st1
          = ((http_Error emptyWriter body_RateLimitExceeded StatusTooManyRequests, st1), m1)"
    using nz1 cl1 over W1 by (simp add: rateLimit_def allow_exhausted)
  have code: "w_status (http_Error emptyWriter body_RateLimitExceeded StatusTooManyRequests) = Some 429"
    by (simp add: http_Error_def Write_def WriteHeader_def header_Set_def emptyWriter_def
        StatusTooManyRequests_def Let_def)
  have reset: "rateLimit m1 t' next emptyWriter r' st1
          = (next emptyWriter r' st1, set_client m1 ip \<lparr>tokens = R - 1, last_t = t'\<rparr>)"
    using nz1 cl1 later W1 R1 by (simp add: rateLimit_def allow_reset set_client_def)
  show ?thesis
    using full direct steps reject code reset by blast
qed


theorem rate_limit_fixed_window_witness:
  "\<exists>ws st1 m1.
      rateLimit_seq (newMiddleware [] 2 10) handleHealth
        [(0, ex_request ''10.0.0.1:9''), (1, ex_request ''10.0.0.1:9'')] ex_world = (ws, st1, m1)
    \<and> rateLimit m1 2 handleHealth emptyWriter (ex_request ''10.0.0.1:9'') st1
          = ((http_Error emptyWriter body_RateLimitExceeded StatusTooManyRequests, st1), m1)
    \<and> fst (rateLimit m1 10 handleHealth emptyWriter (ex_request ''10.0.0.1:9'') st1)
          = handleHealth emptyWriter (ex_request ''10.0.0.1:9'') st1"
proof -
  let ?m = "newMiddleware [] 2 10" and ?r = "ex_request ''10.0.0.1:9''"
  have h1: "1 \<le> rate (rateLimiter ?m)"
    and h2: "clients (rateLimiter ?m) ''10.0.0.1:9'' = None"
    and h3: "RemoteAddr ?r = ''10.0.0.1:9''"
    and h4: "int (length [(1::int, ?r)]) = rate (rateLimiter ?m) - 1"
    and h5: "\<forall>(t, r)\<in>set [(1::int, ?r)].
               RemoteAddr r = ''10.0.0.1:9'' \<and> time_Since t 0 < window (rateLimiter ?m)"
    and h6: "time_Since 2 0 < window (rateLimiter ?m)"
    and h7: "window (rateLimiter ?m) \<le> time_Since 10 0"
    by (simp_all add: newMiddleware_def ex_request_def time_Since_def maxDuration_def
        minDuration_def)
  from rate_limit_fixed_window [OF h1 h2 h3 h4 h5 h3 h6 h3 h7, of handleHealth ex_world]
  show ?thesis by auto
qed

section \<open>Authentication\<close>

lemma http_Error_status:
  "w_status w = None \<Longrightarrow> w_status (http_Error w msg code) = Some code"
  by (simp add: http_Error_def Write_def WriteHeader_def header_Set_def Let_def)

lemma http_Error_body:
  "w_body (http_Error w msg code) = w_body w @ [Plain (msg @ nl)]"
  by (simp add: http_Error_def Write_def WriteHeader_def header_Set_def Let_def split: option.splits)

lemma http_Error_neq: "http_Error w msg code \<noteq> w"
proof
  assume "http_Error w msg code = w"
  then have "w_body (http_Error w msg code) = w_body w" by simp
  then show False by (simp add: http_Error_body)
qed

lemma header_Get_missing: "h key = None \<Longrightarrow> header_Get h key = []"
  by (simp add: header_Get_def)

text \<open>
  C2. With no API key configured, \<open>auth\<close> hands every request to the wrapped handler
  whatever its headers. With a key \<open>K\<close> configured, the request is handed on exactly
  when its \<^verbatim>\<open>X-API-Key\<close> header reads \<open>K\<close>; with any other value, and with no such
  header, the answer is the 401 error, the same for every wrapped handler, the world
  untouched.
\<close>

theorem auth_gate:
  "(apiKey m = [] \<longrightarrow> (\<forall>next. auth m next w r st = next w r st))
   \<and> (apiKey m \<noteq> [] \<longrightarrow>
        ((\<forall>next. auth m next w r st = next w r st)
           \<longleftrightarrow> header_Get (Header r) ''X-Api-Key'' = apiKey m)
      \<and> (header_Get (Header r) ''X-Api-Key'' \<noteq> apiKey m \<longrightarrow>
            (\<forall>next. auth m next w r st = (http_Error w body_Unauthorized StatusUnauthorized, st))
          \<and> (w_status w = None \<longrightarrow>
               w_status (http_Error w body_Unauthorized StatusUnauthorized) = Some 401))
      \<and> (Header r ''X-Api-Key'' = None \<longrightarrow>
            (\<forall>next. auth m next w r st = (http_Error w body_Unauthorized StatusUnauthorized, st))))"
proof (intro conjI impI)
  assume "apiKey m = []"
  then show "\<forall>next. auth m next w r st = next w r st" by (simp add: auth_def)
next
  assume K: "apiKey m \<noteq> []"
  show "(\<forall>next. auth m next w r st = next w r st)
           \<longleftrightarrow> header_Get (Header r) ''X-Api-Key'' = apiKey m"
  proof
    assume pass: "\<forall>next. auth m next w r st = next w r st"
    show "header_Get (Header r) ''X-Api-Key'' = apiKey m"
    proof (rule ccontr)
      assume ne: "header_Get (Header r) ''X-Api-Key'' \<noteq> apiKey m"
      from pass have "auth m (\<lambda>w r st. (w, st)) w r st = (w, st)" by simp
      with K ne have "http_Error w body_Unauthorized StatusUnauthorized = w"
        by (simp add: auth_def)
      then show False by (simp add: http_Error_neq)
    qed
  next
    assume "header_Get (Header r) ''X-Api-Key'' = apiKey m"
    then show "\<forall>next. auth m next w r st = next w r st" by (simp add: auth_def)
  qed
next
  assume "apiKey m \<noteq> []" and "header_Get (Header r) ''X-Api-Key'' \<noteq> apiKey m"
  then show "\<forall>next. auth m next w r st = (http_Error w body_Unauthorized StatusUnauthorized, st)"
    by (simp add: auth_def)
next
  assume "w_status w = None"
  then show "w_status (http_Error w body_Unauthorized StatusUnauthorized) = Some 401"
    by (simp add: http_Error_status StatusUnauthorized_def)
next
  assume "apiKey m \<noteq> []" and "Header r ''X-Api-Key'' = None"
  then show "\<forall>next. auth m next w r st = (http_Error w body_Unauthorized StatusUnauthorized, st)"
    by (simp add: auth_def header_Get_missing)
qed

theorem auth_gate_witness:
  "(\<forall>next. auth (newMiddleware ''k1'' 0 1) next emptyWriter (ex_request ''a'') ex_world
            = (http_Error emptyWriter body_Unauthorized StatusUnauthorized, ex_world))
   \<and> w_status (http_Error emptyWriter body_Unauthorized StatusUnauthorized) = Some 401
   \<and> (\<forall>next. auth (newMiddleware ''k1'' 0 1) next emptyWriter
               ((ex_request ''a'')\<lparr>Header := [''X-Api-Key'' \<mapsto> [''k1'']]\<rparr>) ex_world
            = next emptyWriter ((ex_request ''a'')\<lparr>Header := [''X-Api-Key'' \<mapsto> [''k1'']]\<rparr>) ex_world)
   \<and> (\<forall>next. auth (newMiddleware [] 0 1) next emptyWriter (ex_request ''a'') ex_world
            = next emptyWriter (ex_request ''a'') ex_world)"
  using auth_gate [of "newMiddleware ''k1'' 0 1" emptyWriter "ex_request ''a''" ex_world]
    auth_gate [of "newMiddleware ''k1'' 0 1" emptyWriter
      "(ex_request ''a'')\<lparr>Header := [''X-Api-Key'' \<mapsto> [''k1'']]\<rparr>" ex_world]
    auth_gate [of "newMiddleware [] 0 1" emptyWriter "ex_request ''a''" ex_world]
  by (simp add: newMiddleware_def ex_request_def header_Get_def emptyWriter_def)

section \<open>Validation of empty input\<close>

lemma writeJSON_status:
  "w_status w = None \<Longrightarrow> w_status (writeJSON w code v) = Some code"
  by (simp add: writeJSON_def Write_def WriteHeader_def header_Set_def Let_def)

lemma writeJSON_body:
  "w_body (writeJSON w code v) = w_body w @ [Json v]"
  by (simp add: writeJSON_def Write_def WriteHeader_def header_Set_def Let_def split: option.splits)

lemma writeError_status:
  "w_status w = None \<Longrightarrow> w_status (writeError w code msg) = Some code"
  by (simp add: writeError_def writeJSON_status)

lemma writeError_body:
  "w_body (writeError w code msg) = w_body w @ [Json (JMap [(''error'', msg)])]"
  by (simp add: writeError_def writeJSON_body)

text \<open>
  C4. When the decoded upload request has an empty \<^verbatim>\<open>text\<close>, and when the decoded
  search request has an empty \<^verbatim>\<open>query\<close>, the handler answers the validation error
  with status 400 and returns the world as it found it: no call to the splitter, to the
  embedding provider or to the index was made.
\<close>

theorem empty_input_rejected:
  "(decode_UploadTextRequest e (Body r) = Inr req \<and> Text req = [] \<longrightarrow>
      handleUploadText e w r st = (writeError w StatusBadRequest ''Text field is required'', st)
    \<and> calls (snd (handleUploadText e w r st)) = calls st)
   \<and> (decode_SearchRequest e (Body r) = Inr sreq \<and> sq_Query sreq = [] \<longrightarrow>
      handleSearch e w r st = (writeError w StatusBadRequest ''Query field is required'', st)
    \<and> calls (snd (handleSearch e w r st)) = calls st)
   \<and> (w_status w = None \<longrightarrow> w_status (writeError w StatusBadRequest msg) = Some 400)"
  by (simp add: handleUploadText_def handleSearch_def writeError_status StatusBadRequest_def)

theorem empty_input_rejected_witness:
  "handleUploadText (ex_env\<lparr>decode_UploadTextRequest :=
        (\<lambda>b. Inr \<lparr>Text = [], ut_Metadata = Map.empty, Source = b\<rparr>)\<rparr>)
      emptyWriter (ex_request ''a'') ex_world
     = (writeError emptyWriter StatusBadRequest ''Text field is required'', ex_world)
   \<and> handleSearch (ex_env\<lparr>decode_SearchRequest := (\<lambda>b. Inr \<lparr>sq_Query = [], TopK = 3\<rparr>)\<rparr>)
      emptyWriter (ex_request ''a'') ex_world
     = (writeError emptyWriter StatusBadRequest ''Query field is required'', ex_world)
   \<and> w_status (writeError emptyWriter StatusBadRequest ''Text field is required'') = Some 400"
  using empty_input_rejected
    [of "ex_env\<lparr>decode_UploadTextRequest :=
            (\<lambda>b. Inr \<lparr>Text = [], ut_Metadata = Map.empty, Source = b\<rparr>),
          decode_SearchRequest := (\<lambda>b. Inr \<lparr>sq_Query = [], TopK = 3\<rparr>)\<rparr>"
        "ex_request ''a''" "\<lparr>Text = [], ut_Metadata = Map.empty, Source = []\<rparr>"
        emptyWriter ex_world "\<lparr>sq_Query = [], TopK = 3\<rparr>" "''Text field is required''"]
  by (simp add: ex_request_def emptyWriter_def handleUploadText_def handleSearch_def)

section \<open>Ingestion\<close>

lemma EmbedDocuments_mismatch:
  assumes "Models_EmbedContent e (modelName e) chunks = Inr result"
    and "Embeddings result = None \<or> len_opt (Embeddings result) \<noteq> length chunks"
  shows "EmbedDocuments e chunks st =
           (Inl (''unexpected number of embeddings: got '' @ showNat (len_opt (Embeddings result))
                   @ '', expected '' @ showNat (length chunks)),
            called (Call_EmbedContent (modelName e) chunks) st)"
  using assms by (auto simp: EmbedDocuments_def Let_def)

lemma EmbedDocuments_length:
  "EmbedDocuments e chunks st = (Inr embeddings, st') \<Longrightarrow> length embeddings = length chunks"
  by (auto simp: EmbedDocuments_def Let_def len_opt_def split: sum.splits option.splits if_splits)

lemma EmbedDocuments_world:
  "snd (EmbedDocuments e chunks st) = called (Call_EmbedContent (modelName e) chunks) st"
  by (auto simp: EmbedDocuments_def Let_def split: sum.splits option.splits)

text \<open>
  C6. When the ingestion reaches the embedding provider and the provider answers
  without error but with a nil list, or with a number of vectors other than the number
  of chunks, the handler answers 500 with the embedding error; the only calls made are
  the split and the embedding call, so nothing is upserted.
\<close>

theorem embedding_count_mismatch_fails:
  assumes dec: "decode_UploadTextRequest e (Body r) = Inr req"
    and nonempty: "Text req \<noteq> []"
    and spl: "splitter_SplitText e (Text req) = Inr chunks"
    and ne: "chunks \<noteq> []"
    and emb: "Models_EmbedContent e (modelName e) chunks = Inr result"
    and mis: "Embeddings result = None \<or> len_opt (Embeddings result) \<noteq> length chunks"
  shows "handleUploadText e w r st =
           (writeError w StatusInternalServerError
              (''Failed to generate embeddings: '' @ ''unexpected number of embeddings: got ''
                 @ showNat (len_opt (Embeddings result)) @ '', expected ''
                 @ showNat (length chunks)),
            st\<lparr>calls := calls st @ [Call_SplitText (Text req),
                                     Call_EmbedContent (modelName e) chunks]\<rparr>)
       \<and> (w_status w = None \<longrightarrow> w_status (fst (handleUploadText e w r st)) = Some 500)
       \<and> (\<forall>rq. Call_Upsert rq \<notin> set (calls (snd (handleUploadText e w r st))) - set (calls st))"
proof -
  have run: "handleUploadText e w r st =
           (writeError w StatusInternalServerError
              (''Failed to generate embeddings: '' @ ''unexpected number of embeddings: got ''
                 @ showNat (len_opt (Embeddings result)) @ '', expected ''
                 @ showNat (length chunks)),
            st\<lparr>calls := calls st @ [Call_SplitText (Text req),
                                     Call_EmbedContent (modelName e) chunks]\<rparr>)"
    using dec nonempty spl ne
    by (simp add: handleUploadText_def Let_def EmbedDocuments_mismatch [OF emb mis] called_def)
  show ?thesis
    by (simp add: run writeError_status StatusInternalServerError_def)
qed

theorem embedding_count_mismatch_fails_witness:
  "w_status (fst (handleUploadText
       (ex_env\<lparr>Models_EmbedContent := (\<lambda>m ts. Inr \<lparr>Embeddings = None\<rparr>)\<rparr>)
       emptyWriter ((ex_request ''a'')\<lparr>Body := ''some text''\<rparr>) ex_world)) = Some 500
   \<and> calls (snd (handleUploadText
       (ex_env\<lparr>Models_EmbedContent := (\<lambda>m ts. Inr \<lparr>Embeddings = None\<rparr>)\<rparr>)
       emptyWriter ((ex_request ''a'')\<lparr>Body := ''some text''\<rparr>) ex_world))
     = [Call_SplitText ''some text'', Call_EmbedContent ''gemini-embedding-001'' [''some text'']]"
proof -
  let ?e = "ex_env\<lparr>Models_EmbedContent := (\<lambda>m ts. Inr \<lparr>Embeddings = None\<rparr>)\<rparr>"
  let ?r = "(ex_request ''a'')\<lparr>Body := ''some text''\<rparr>"
  let ?req = "\<lparr>Text = ''some text'', ut_Metadata = Map.empty, Source = []\<rparr>"
  have h1: "decode_UploadTextRequest ?e (Body ?r) = Inr ?req"
    and h2: "Text ?req \<noteq> []"
    and h3: "splitter_SplitText ?e (Text ?req) = Inr [''some text'']"
    and h4: "[''some text''] \<noteq> []"
    and h5: "Models_EmbedContent ?e (modelName ?e) [''some text''] = Inr \<lparr>Embeddings = None\<rparr>"
    and h6: "Embeddings \<lparr>Embeddings = None\<rparr> = None
             \<or> len_opt (Embeddings \<lparr>Embeddings = None\<rparr>) \<noteq> length [''some text'']"
    and h7: "w_status emptyWriter = None"
    and h8: "modelName ?e = ''gemini-embedding-001''"
    by (simp_all add: ex_env_def ex_request_def emptyWriter_def modelName_def ex_cfg_def)
  from embedding_count_mismatch_fails [OF h1 h2 h3 h4 h5 h6, of emptyWriter ex_world] h7 h8
  show ?thesis
    by (simp add: ex_world_def writeError_status StatusInternalServerError_def called_def)
qed

lemma upload_docs_spec:
  "upload_docs e req embeddings i chunks u = Some ((docs, ids), u1) \<Longrightarrow>
     length docs = length chunks \<and> length ids = length chunks \<and> u1 = u + length chunks
     \<and> (\<forall>k<length chunks.
           i + k < length embeddings
         \<and> ids ! k = uuid_New e (u + k)
         \<and> doc_ID (docs ! k) = ids ! k
         \<and> doc_Content (docs ! k) = chunks ! k
         \<and> doc_Metadata (docs ! k) = merge_metadata req (i + k)
         \<and> Dense (docs ! k) = embeddings ! (i + k)
         \<and> Sparse (docs ! k) = None)"
proof (induction chunks arbitrary: i u docs ids)
  case Nil
  then show ?case by simp
next
  case (Cons chunk chunks)
  from Cons.prems obtain docs' ids' where
    rec: "upload_docs e req embeddings (Suc i) chunks (Suc u) = Some ((docs', ids'), u1)"
    and i: "i < length embeddings"
    and docs: "docs = \<lparr>doc_ID = uuid_New e u, doc_Content = chunk,
                        doc_Metadata = merge_metadata req i,
                        Dense = embeddings ! i, Sparse = None\<rparr> # docs'"
    and ids: "ids = uuid_New e u # ids'"
    by (auto simp: Let_def split: if_splits option.splits)
  note IH = Cons.IH [OF rec]
  show ?case
  proof (intro conjI allI impI)
    fix k assume k: "k < length (chunk # chunks)"
    show "i + k < length embeddings" using IH k i by (cases k) auto
    show "ids ! k = uuid_New e (u + k)" using IH k ids by (cases k) auto
    show "doc_ID (docs ! k) = ids ! k" using IH k ids docs by (cases k) auto
    show "doc_Content (docs ! k) = (chunk # chunks) ! k" using IH k docs by (cases k) auto
    show "doc_Metadata (docs ! k) = merge_metadata req (i + k)" using IH k docs by (cases k) auto
    show "Dense (docs ! k) = embeddings ! (i + k)" using IH k docs by (cases k) auto
    show "Sparse (docs ! k) = None" using IH k docs by (cases k) auto
  qed (use IH docs ids i in auto)
qed

lemma upload_docs_no_panic:
  "i + length chunks \<le> length embeddings \<Longrightarrow> upload_docs e req embeddings i chunks u \<noteq> None"
  by (induction chunks arbitrary: i u) (auto simp: Let_def split: option.splits)


lemma Upsert_world:
  "snd (Upsert e collection docs st) =
     called (Call_Upsert \<lparr>up_CollectionName = collection,
                           up_Points = fst (upsert_points e docs (uuids_used st))\<rparr>)
       (st\<lparr>uuids_used := snd (upsert_points e docs (uuids_used st))\<rparr>)"
  by (simp add: Upsert_def Let_def split_beta split: option.splits)



section \<open>Chat\<close>

lemma Retrieve_error:
  "Retrieve e q st = ((retrieved, Some er), st') \<Longrightarrow> retrieved = None"
  by (auto simp: Retrieve_def Let_def split_beta split: sum.splits)

lemma instruction_None:
  "instruction e None = Agent_Instruction (cfg e) @ nl @ nl @ nl @ nl @ strategy"
  by (simp add: instruction_def contextBuilder_def)

text \<open>
  C7. Take a chat request that decodes to a non-empty message and has a session (given,
  or created without error). If \<^verbatim>\<open>Retrieve\<close> returns an error, the context it
  returns is nil and the handler goes on: it asks for an agent whose instruction is the
  base instruction, an empty context and the strategy text, with no section of retrieved
  documents; when the agent and the runner are created it runs the generator; and when
  the generator's stream holds no error the answer is 200 with the concatenated text and
  the session id.
\<close>

theorem chat_degrades_on_retrieval_failure:
  fixes e :: env and req :: ChatRequest
  defines "agent \<equiv> \<lparr>ag_Name = Agent_Name (cfg e), ag_Description = Agent_Description (cfg e),
                      ag_Instruction = Agent_Instruction (cfg e) @ nl @ nl @ nl @ nl @ strategy,
                      ag_Tools = [GoogleSearch]\<rparr>"
  defines "runner \<equiv> \<lparr>rn_AppName = ''agentic_rag_go'', rn_Agent = agent\<rparr>"
  assumes dec: "decode_ChatRequest e (Body r) = Inr req"
    and msg: "cq_Message req \<noteq> []"
    and user: "userID = (if UserID req = [] then ''default_user'' else UserID req)"
    and sess: "(if cq_SessionID req = []
                then sessionService_Create e ''agentic_rag_go'' userID
                else Inr (cq_SessionID req)) = Inr sessionID"
    and st1: "st1 = (if cq_SessionID req = []
                     then called (Call_SessionCreate ''agentic_rag_go'' userID) st else st)"
    and fail: "Retrieve e (cq_Message req) st1 = ((retrieved, Some er), st2)"
  shows "retrieved = None
    \<and> Call_AgentNew agent \<in> set (calls (snd (handleChat e w r st)))
    \<and> (llmagent_New e agent = None \<and> runner_New e runner = None \<longrightarrow>
          Call_RunnerRun runner userID sessionID (cq_Message req)
            \<in> set (calls (snd (handleChat e w r st)))
        \<and> (\<forall>answer. run_events (runner_Run e runner userID sessionID (cq_Message req)) []
                        = Inr answer \<longrightarrow>
               fst (handleChat e w r st)
                 = writeJSON w StatusOK
                     (JChatResponse \<lparr>Response = answer, cr_SessionID = sessionID\<rparr>)))"
proof -
  have none: "retrieved = None" using fail by (rule Retrieve_error)
  have ag: "\<lparr>ag_Name = Agent_Name (cfg e), ag_Description = Agent_Description (cfg e),
             ag_Instruction = instruction e None, ag_Tools = [GoogleSearch]\<rparr> = agent"
    by (simp add: agent_def instruction_None)
  define st3 where "st3 = called (Call_AgentNew agent) st2"
  define st4 where "st4 = called (Call_RunnerNew runner) st3"
  define st5 where "st5 = called (Call_RunnerRun runner userID sessionID (cq_Message req)) st4"
  have nr: "NewRunner e ''agentic_rag_go'' None st2 =
      (case llmagent_New e agent of
         Some er \<Rightarrow> (Inl (''failed to create agent: '' @ er), st3)
       | None \<Rightarrow> (case runner_New e runner of
                    Some er \<Rightarrow> (Inl (''failed to create runner: '' @ er), st4)
                  | None \<Rightarrow> (Inr runner, st4)))"
    by (simp add: NewRunner_def Let_def ag st3_def st4_def runner_def split: option.splits)
  obtain rn st3' where NR: "NewRunner e ''agentic_rag_go'' None st2 = (rn, st3')"
    by (cases "NewRunner e ''agentic_rag_go'' None st2") auto
  have fail': "Retrieve e (cq_Message req) st1 = ((None, Some er), st2)"
    using fail none by simp
  have run: "handleChat e w r st =
      (case rn of
         Inl er \<Rightarrow>
           (writeError w StatusInternalServerError (''Failed to create runner: '' @ er), st3')
       | Inr runner \<Rightarrow>
           (case run_events (runner_Run e runner userID sessionID (cq_Message req)) [] of
              Inl er \<Rightarrow>
                (writeError w StatusInternalServerError (''Agent error: '' @ er),
                 called (Call_RunnerRun runner userID sessionID (cq_Message req)) st3')
            | Inr responseText \<Rightarrow>
                (writeJSON w StatusOK
                   (JChatResponse \<lparr>Response = responseText, cr_SessionID = sessionID\<rparr>),
                 called (Call_RunnerRun runner userID sessionID (cq_Message req)) st3')))"
  proof (cases "cq_SessionID req = []")
    case True
    with sess have c: "sessionService_Create e ''agentic_rag_go'' userID = Inr sessionID" by simp
    from True st1 have s: "called (Call_SessionCreate ''agentic_rag_go'' userID) st = st1" by simp
    show ?thesis
      using dec msg True
      by (simp add: handleChat_def Let_def user [symmetric] c s fail' NR split: sum.splits)
  next
    case False
    with sess have c: "cq_SessionID req = sessionID" by simp
    from False st1 have s: "st = st1" by simp
    show ?thesis
      using dec msg False
      by (simp add: handleChat_def Let_def user [symmetric] c s [symmetric] fail' [unfolded s [symmetric]] NR [unfolded s [symmetric]] split: sum.splits)
  qed
  have in3: "Call_AgentNew agent \<in> set (calls st3)"
    and in4: "Call_AgentNew agent \<in> set (calls st4)"
    and in5: "Call_AgentNew agent \<in> set (calls st5)"
    and rr5: "Call_RunnerRun runner userID sessionID (cq_Message req) \<in> set (calls st5)"
    by (simp_all add: st3_def st4_def st5_def called_def)
  have logged: "Call_AgentNew agent \<in> set (calls (snd (handleChat e w r st)))"
    using in3 in4 in5
    using NR by (auto simp: run nr st5_def split: option.splits sum.splits)
  have gen: "Call_RunnerRun runner userID sessionID (cq_Message req)
            \<in> set (calls (snd (handleChat e w r st)))
        \<and> (\<forall>answer. run_events (runner_Run e runner userID sessionID (cq_Message req)) []
                        = Inr answer \<longrightarrow>
               fst (handleChat e w r st)
                 = writeJSON w StatusOK
                     (JChatResponse \<lparr>Response = answer, cr_SessionID = sessionID\<rparr>))"
    if "llmagent_New e agent = None" "runner_New e runner = None"
    using that rr5 NR by (auto simp: run nr st5_def split: sum.splits)
  show ?thesis using none logged gen by blast
qed


theorem chat_degrades_on_retrieval_failure_witness:
  "fst (Retrieve (ex_env\<lparr>points_Query := (\<lambda>rq. Inl ''unavailable'')\<rparr>) ''hi'' ex_world)
     = (None, Some ''retrieval failed: failed to search: unavailable'')
   \<and> fst (handleChat (ex_env\<lparr>points_Query := (\<lambda>rq. Inl ''unavailable'')\<rparr>) emptyWriter
            ((ex_request ''a'')\<lparr>Body := ''hi''\<rparr>) ex_world)
     = writeJSON emptyWriter StatusOK (JChatResponse \<lparr>Response = ''hello'', cr_SessionID = ''s1''\<rparr>)"
proof -
  let ?e = "ex_env\<lparr>points_Query := (\<lambda>rq. Inl ''unavailable'')\<rparr>"
  let ?r = "(ex_request ''a'')\<lparr>Body := ''hi''\<rparr>"
  let ?req = "\<lparr>cq_Message = ''hi'', cq_SessionID = ''s1'', UserID = []\<rparr>"
  let ?agent = "\<lparr>ag_Name = Agent_Name (cfg ?e), ag_Description = Agent_Description (cfg ?e),
                 ag_Instruction = Agent_Instruction (cfg ?e) @ nl @ nl @ nl @ nl @ strategy,
                 ag_Tools = [GoogleSearch]\<rparr>"
  let ?runner = "\<lparr>rn_AppName = ''agentic_rag_go'', rn_Agent = ?agent\<rparr>"
  have h1: "decode_ChatRequest ?e (Body ?r) = Inr ?req"
    and h2: "cq_Message ?req \<noteq> []"
    and h3: "''default_user'' = (if UserID ?req = [] then ''default_user'' else UserID ?req)"
    and h4: "(if cq_SessionID ?req = []
              then sessionService_Create ?e ''agentic_rag_go'' ''default_user''
              else Inr (cq_SessionID ?req)) = Inr ''s1''"
    and h5: "ex_world = (if cq_SessionID ?req = []
              then called (Call_SessionCreate ''agentic_rag_go'' ''default_user'') ex_world
              else ex_world)"
    and h7: "llmagent_New ?e ?agent = None \<and> runner_New ?e ?runner = None"
    and h8: "run_events (runner_Run ?e ?runner ''default_user'' ''s1'' (cq_Message ?req)) []
               = Inr ''hello''"
    by (simp_all add: ex_env_def ex_request_def)
  have f: "fst (Retrieve ?e ''hi'' ex_world)
             = (None, Some ''retrieval failed: failed to search: unavailable'')"
    by (simp add: Retrieve_def EmbedQuery_def HybridSearch_def ex_env_def Let_def called_def)
  then have h6: "Retrieve ?e (cq_Message ?req) ex_world
             = ((None, Some ''retrieval failed: failed to search: unavailable''),
                snd (Retrieve ?e ''hi'' ex_world))"
    by (simp add: prod_eq_iff)
  from chat_degrades_on_retrieval_failure [OF h1 h2 h3 h4 h5 h6, of emptyWriter] h7 h8 f
  show ?thesis by simp
qed

section \<open>Caller metadata in the stored payload\<close>

lemma showNat_0: "showNat 0 = ''0''"
  by (simp add: showNat.simps)

lemma upsert_points_length: "length (fst (upsert_points e docs u)) = length docs"
  by (induction docs arbitrary: u) (auto simp: Let_def split_beta)

lemma upsert_points_payload:
  "i < length docs \<Longrightarrow> ps_Payload (fst (upsert_points e docs u) ! i) = upsert_payload (docs ! i)"
proof (induction docs arbitrary: u i)
  case Nil
  then show ?case by simp
next
  case (Cons doc docs)
  then show ?case by (cases i) (auto simp: Let_def split_beta)
qed

lemma upsert_payload_key:
  "upsert_payload doc k =
     (case doc_Metadata doc k of
        Some v \<Rightarrow> Some (StringValue v)
      | None \<Rightarrow> if k = ''content'' then Some (StringValue (doc_Content doc)) else None)"
  by (simp add: upsert_payload_def map_add_def split: option.splits)

lemma merge_metadata_key:
  "merge_metadata req i k =
     (if k = ''chunk_index'' then Some (showNat i)
      else if k = ''source'' \<and> Source req \<noteq> [] then Some (Source req)
      else ut_Metadata req k)"
  by (simp add: merge_metadata_def Let_def)

lemma toSearchResult_content:
  "sp_Payload sp ''content'' = Some (StringValue v) \<Longrightarrow> sr_Content (toSearchResult sp) = v"
  by (simp add: toSearchResult_def)

text \<open>
  C10 as stated fails for the key \<^verbatim>\<open>source\<close>, which is not protected when the request's source field is empty:
  the caller metadata decides what is stored under it.
\<close>

theorem source_not_protected_counterexample:
  "ps_Payload (hd (upserted_points
      (snd (handleUploadText ex_forged_env emptyWriter (ex_request ''a'') ex_world)))) ''source''
     = Some (StringValue ''forged'')
   \<and> ps_Payload (hd (upserted_points
      (snd (handleUploadText ex_plain_env emptyWriter (ex_request ''a'') ex_world)))) ''source''
     = None"
  by (simp add: handleUploadText_def ex_forged_env_def ex_plain_env_def ex_env_def
      ex_forged_request_def ex_plain_request_def ex_request_def ex_world_def Let_def
      EmbedDocuments_def called_def len_opt_def Upsert_def split_beta upserted_points_def
      upsert_payload_def merge_metadata_def)

text \<open>
  C10 (as amended). For the point stored for chunk \<open>i\<close> of an upload request: when the
  caller metadata has the key \<^verbatim>\<open>content\<close>, the point's \<^verbatim>\<open>content\<close> payload
  is that metadata value and not the chunk text, and a search result built from a point
  with this payload has the metadata value as its content; without that key it is the
  chunk text. \<^verbatim>\<open>chunk_index\<close> is always the index \<open>i\<close>. \<^verbatim>\<open>source\<close> is the
  request's source when that is non-empty; when it is empty, \<^verbatim>\<open>source\<close> is whatever
  the caller metadata holds under that key. Every other key is stored as the caller
  metadata has it.
\<close>

theorem caller_metadata_in_payload:
  assumes up: "upload_docs e req embeddings 0 chunks u = Some ((docs, ids), u1)"
    and i: "i < length chunks"
  shows "(\<forall>v. ut_Metadata req ''content'' = Some v \<longrightarrow>
            ps_Payload (fst (upsert_points e docs u2) ! i) ''content'' = Some (StringValue v)
          \<and> (\<forall>sp. sp_Payload sp = ps_Payload (fst (upsert_points e docs u2) ! i) \<longrightarrow>
                 sr_Content (toSearchResult sp) = v))
    \<and> (ut_Metadata req ''content'' = None \<longrightarrow>
          ps_Payload (fst (upsert_points e docs u2) ! i) ''content''
            = Some (StringValue (chunks ! i)))
    \<and> ps_Payload (fst (upsert_points e docs u2) ! i) ''chunk_index''
          = Some (StringValue (showNat i))
    \<and> (Source req \<noteq> [] \<longrightarrow>
          ps_Payload (fst (upsert_points e docs u2) ! i) ''source''
            = Some (StringValue (Source req)))
    \<and> (\<forall>k. Source req = [] \<and> k = ''source'' \<or> k \<noteq> ''source'' \<and> k \<noteq> ''chunk_index''
              \<and> k \<noteq> ''content'' \<longrightarrow>
          ps_Payload (fst (upsert_points e docs u2) ! i) k
            = map_option StringValue (ut_Metadata req k))"
proof -
  let ?p = "ps_Payload (fst (upsert_points e docs u2) ! i)"
  note spec = upload_docs_spec [OF up]
  from spec i have len: "i < length docs" by simp
  from spec i have content: "doc_Content (docs ! i) = chunks ! i"
    and md: "doc_Metadata (docs ! i) = merge_metadata req i" by simp_all
  have p: "?p = upsert_payload (docs ! i)"
    using len by (rule upsert_points_payload)
  have key: "?p k =
     (case merge_metadata req i k of
        Some v \<Rightarrow> Some (StringValue v)
      | None \<Rightarrow> if k = ''content'' then Some (StringValue (chunks ! i)) else None)" for k
    by (simp add: p upsert_payload_key md content split: option.splits)
  have c1: "?p ''content'' = Some (StringValue v)
          \<and> (\<forall>sp. sp_Payload sp = ?p \<longrightarrow> sr_Content (toSearchResult sp) = v)"
    if "ut_Metadata req ''content'' = Some v" for v
    using that by (simp add: key merge_metadata_key toSearchResult_content)
  have c2: "ut_Metadata req ''content'' = None \<longrightarrow> ?p ''content'' = Some (StringValue (chunks ! i))"
    by (simp add: key merge_metadata_key)
  have c3: "?p ''chunk_index'' = Some (StringValue (showNat i))"
    by (simp add: key merge_metadata_key)
  have c4: "Source req \<noteq> [] \<longrightarrow> ?p ''source'' = Some (StringValue (Source req))"
    by (simp add: key merge_metadata_key)
  have c5: "?p k = map_option StringValue (ut_Metadata req k)"
    if "Source req = [] \<and> k = ''source'' \<or> k \<noteq> ''source'' \<and> k \<noteq> ''chunk_index'' \<and> k \<noteq> ''content''"
    for k
    using that by (auto simp: key merge_metadata_key split: option.splits)
  show ?thesis using c1 c2 c3 c4 c5 by blast
qed

theorem caller_metadata_in_payload_witness:
  "ps_Payload (fst (upsert_points ex_env
       [\<lparr>doc_ID = ''id-0'', doc_Content = ''chunk text'',
         doc_Metadata = merge_metadata ex_override_request 0,
         Dense = [Float32 0], Sparse = None\<rparr>] 1) ! 0) ''content''
     = Some (StringValue ''override'')
   \<and> ps_Payload (fst (upsert_points ex_env
       [\<lparr>doc_ID = ''id-0'', doc_Content = ''chunk text'',
         doc_Metadata = merge_metadata ex_override_request 0,
         Dense = [Float32 0], Sparse = None\<rparr>] 1) ! 0) ''source''
     = Some (StringValue ''notes.txt'')"
proof -
  let ?docs = "[\<lparr>doc_ID = ''id-0'', doc_Content = ''chunk text'',
         doc_Metadata = merge_metadata ex_override_request 0,
         Dense = [Float32 0], Sparse = None\<rparr>]"
  have h1: "upload_docs ex_env ex_override_request [[Float32 0]] 0 [''chunk text''] 0
              = Some ((?docs, [''id-0'']), 1)"
    by (simp add: ex_env_def showNat.simps Let_def)
  have h2: "0 < length [''chunk text'']" by simp
  have h3: "ut_Metadata ex_override_request ''content'' = Some ''override''"
    and h4: "Source ex_override_request \<noteq> []" "Source ex_override_request = ''notes.txt''"
    by (simp_all add: ex_override_request_def)
  from caller_metadata_in_payload [OF h1 h2, of 1] h3 h4
  show ?thesis by simp
qed


section \<open>Routes\<close>

lemma ServeHTTP_cors:
  "ServeHTTP s now w r st =
     (if Method r = ''OPTIONS'' then (WriteHeader (cors w) StatusOK, st)
      else mux_ServeHTTP (mux s) now (cors w) r st)"
  by (simp add: ServeHTTP_def cors_def Let_def)

lemma handleUploadText_Body:
  "Body r = Body r' \<Longrightarrow> handleUploadText e w r st = handleUploadText e w r' st"
  by (simp add: handleUploadText_def)

lemma handleSearch_Body:
  "Body r = Body r' \<Longrightarrow> handleSearch e w r st = handleSearch e w r' st"
  by (simp add: handleSearch_def)

lemma handleChat_Body:
  "Body r = Body r' \<Longrightarrow> handleChat e w r st = handleChat e w r' st"
  by (simp add: handleChat_def)

lemma gated_cong:
  assumes "Header r = Header r'" and "RemoteAddr r = RemoteAddr r'"
    and "\<And>w st. h w r st = h' w r' st"
  shows "gated h now w r s = gated h' now w r' s"
  using assms by (simp add: gated_def rateLimit_def auth_def Let_def split_beta)

lemma mux_upload_text:
  "Method r = ''POST'' \<Longrightarrow>
   mux_ServeHTTP (registerRoutes e ''v1'') now w (r\<lparr>URL_Path := ''/api/v1/upload_text''\<rparr>) s
     = gated (handleUploadText e) now w (r\<lparr>URL_Path := ''/api/v1/upload_text''\<rparr>) s"
  by (simp add: mux_ServeHTTP_def registerRoutes_def Let_def method_matches_def
      path_matches_def)

lemma mux_search:
  "Method r = ''POST'' \<Longrightarrow>
   mux_ServeHTTP (registerRoutes e ''v1'') now w (r\<lparr>URL_Path := ''/api/v1/search''\<rparr>) s
     = gated (handleSearch e) now w (r\<lparr>URL_Path := ''/api/v1/search''\<rparr>) s"
  by (simp add: mux_ServeHTTP_def registerRoutes_def Let_def method_matches_def
      path_matches_def)

lemma mux_chat:
  "Method r = ''POST'' \<Longrightarrow>
   mux_ServeHTTP (registerRoutes e ''v1'') now w (r\<lparr>URL_Path := ''/api/v1/chat''\<rparr>) s
     = gated (handleChat e) now w (r\<lparr>URL_Path := ''/api/v1/chat''\<rparr>) s"
  by (simp add: mux_ServeHTTP_def registerRoutes_def Let_def method_matches_def
      path_matches_def)

lemma mux_documents_upload:
  "Method r = ''POST'' \<Longrightarrow>
   mux_ServeHTTP (registerRoutes e ''v1'') now w (r\<lparr>URL_Path := ''/api/v1/documents/upload''\<rparr>) s
     = gated (handleUploadTextV2 e) now w (r\<lparr>URL_Path := ''/api/v1/documents/upload''\<rparr>) s"
  by (simp add: mux_ServeHTTP_def registerRoutes_def Let_def method_matches_def
      path_matches_def)

lemma mux_documents_search:
  "Method r = ''POST'' \<Longrightarrow>
   mux_ServeHTTP (registerRoutes e ''v1'') now w (r\<lparr>URL_Path := ''/api/v1/documents/search''\<rparr>) s
     = gated (handleSearchV2 e) now w (r\<lparr>URL_Path := ''/api/v1/documents/search''\<rparr>) s"
  by (simp add: mux_ServeHTTP_def registerRoutes_def Let_def method_matches_def
      path_matches_def)

lemma mux_conversations_chat:
  "Method r = ''POST'' \<Longrightarrow>
   mux_ServeHTTP (registerRoutes e ''v1'') now w (r\<lparr>URL_Path := ''/api/v1/conversations/chat''\<rparr>) s
     = gated (handleChatV2 e) now w (r\<lparr>URL_Path := ''/api/v1/conversations/chat''\<rparr>) s"
  by (simp add: mux_ServeHTTP_def registerRoutes_def Let_def method_matches_def
      path_matches_def)

lemma mux_health:
  "Method r = ''GET'' \<Longrightarrow>
   mux_ServeHTTP (registerRoutes e ''v1'') now w (r\<lparr>URL_Path := ''/health''\<rparr>) s
     = ungated handleHealth now w (r\<lparr>URL_Path := ''/health''\<rparr>) s"
  by (simp add: mux_ServeHTTP_def registerRoutes_def Let_def method_matches_def
      path_matches_def)

lemma mux_no_upload_text:
  "mux_ServeHTTP (registerRoutes e ''v1'') now w (r\<lparr>URL_Path := ''/upload_text''\<rparr>) s
     = (http_Error w ''404 page not found'' StatusNotFound, s)"
  by (simp add: mux_ServeHTTP_def registerRoutes_def Let_def method_matches_def
      path_matches_def)

lemma mux_no_search:
  "mux_ServeHTTP (registerRoutes e ''v1'') now w (r\<lparr>URL_Path := ''/search''\<rparr>) s
     = (http_Error w ''404 page not found'' StatusNotFound, s)"
  by (simp add: mux_ServeHTTP_def registerRoutes_def Let_def method_matches_def
      path_matches_def)

lemma mux_no_chat:
  "mux_ServeHTTP (registerRoutes e ''v1'') now w (r\<lparr>URL_Path := ''/chat''\<rparr>) s
     = (http_Error w ''404 page not found'' StatusNotFound, s)"
  by (simp add: mux_ServeHTTP_def registerRoutes_def Let_def method_matches_def
      path_matches_def)

lemma mux_no_v1_health:
  "mux_ServeHTTP (registerRoutes e ''v1'') now w (r\<lparr>URL_Path := ''/api/v1/health''\<rparr>) s
     = (http_Error w ''404 page not found'' StatusNotFound, s)"
  by (simp add: mux_ServeHTTP_def registerRoutes_def Let_def method_matches_def
      path_matches_def)


lemma gated_V2:
  "gated (handleUploadTextV2 e) now w (r\<lparr>URL_Path := p\<rparr>) s
     = gated (handleUploadText e) now w (r\<lparr>URL_Path := q\<rparr>) s"
  "gated (handleSearchV2 e) now w (r\<lparr>URL_Path := p\<rparr>) s
     = gated (handleSearch e) now w (r\<lparr>URL_Path := q\<rparr>) s"
  "gated (handleChatV2 e) now w (r\<lparr>URL_Path := p\<rparr>) s
     = gated (handleChat e) now w (r\<lparr>URL_Path := q\<rparr>) s"
  by (rule gated_cong; simp add: handleUploadTextV2_def handleSearchV2_def handleChatV2_def
        handleUploadText_Body [of "r\<lparr>URL_Path := p\<rparr>" "r\<lparr>URL_Path := q\<rparr>"]
        handleSearch_Body [of "r\<lparr>URL_Path := p\<rparr>" "r\<lparr>URL_Path := q\<rparr>"]
        handleChat_Body [of "r\<lparr>URL_Path := p\<rparr>" "r\<lparr>URL_Path := q\<rparr>"])+

lemma NewServer_mux: "mux (fst (NewServer e)) = registerRoutes e ''v1''"
  by (simp add: NewServer_def)

text \<open>
  C3 (as amended). Each of the three POST operations is registered under
  \<^verbatim>\<open>/api/v1/upload_text\<close>, \<^verbatim>\<open>/api/v1/search\<close>, \<^verbatim>\<open>/api/v1/chat\<close> and
  under the alias \<^verbatim>\<open>/api/v1/documents/upload\<close>, \<^verbatim>\<open>/api/v1/documents/search\<close>,
  \<^verbatim>\<open>/api/v1/conversations/chat\<close>; a route and its alias give the same response and
  leave the same state, whatever the request body. \<^verbatim>\<open>GET /health\<close> is registered
  without prefix only. The paths \<^verbatim>\<open>/upload_text\<close>, \<^verbatim>\<open>/search\<close>,
  \<^verbatim>\<open>/chat\<close> and \<^verbatim>\<open>/api/v1/health\<close> are not registered and are answered 404.
\<close>

theorem v1_routes_and_aliases:
  assumes post: "Method r = ''POST''" and get: "Method g = ''GET''"
  shows
    "ServeHTTP (fst (NewServer e)) now w (r\<lparr>URL_Path := ''/api/v1/upload_text''\<rparr>) s
       = gated (handleUploadText e) now (cors w) (r\<lparr>URL_Path := ''/api/v1/upload_text''\<rparr>) s
   \<and> ServeHTTP (fst (NewServer e)) now w (r\<lparr>URL_Path := ''/api/v1/documents/upload''\<rparr>) s
       = ServeHTTP (fst (NewServer e)) now w (r\<lparr>URL_Path := ''/api/v1/upload_text''\<rparr>) s
   \<and> ServeHTTP (fst (NewServer e)) now w (r\<lparr>URL_Path := ''/api/v1/search''\<rparr>) s
       = gated (handleSearch e) now (cors w) (r\<lparr>URL_Path := ''/api/v1/search''\<rparr>) s
   \<and> ServeHTTP (fst (NewServer e)) now w (r\<lparr>URL_Path := ''/api/v1/documents/search''\<rparr>) s
       = ServeHTTP (fst (NewServer e)) now w (r\<lparr>URL_Path := ''/api/v1/search''\<rparr>) s
   \<and> ServeHTTP (fst (NewServer e)) now w (r\<lparr>URL_Path := ''/api/v1/chat''\<rparr>) s
       = gated (handleChat e) now (cors w) (r\<lparr>URL_Path := ''/api/v1/chat''\<rparr>) s
   \<and> ServeHTTP (fst (NewServer e)) now w (r\<lparr>URL_Path := ''/api/v1/conversations/chat''\<rparr>) s
       = ServeHTTP (fst (NewServer e)) now w (r\<lparr>URL_Path := ''/api/v1/chat''\<rparr>) s
   \<and> ServeHTTP (fst (NewServer e)) now w (g\<lparr>URL_Path := ''/health''\<rparr>) s
       = ungated handleHealth now (cors w) (g\<lparr>URL_Path := ''/health''\<rparr>) s
   \<and> ServeHTTP (fst (NewServer e)) now w (r\<lparr>URL_Path := ''/upload_text''\<rparr>) s
       = (http_Error (cors w) ''404 page not found'' StatusNotFound, s)
   \<and> ServeHTTP (fst (NewServer e)) now w (r\<lparr>URL_Path := ''/search''\<rparr>) s
       = (http_Error (cors w) ''404 page not found'' StatusNotFound, s)
   \<and> ServeHTTP (fst (NewServer e)) now w (r\<lparr>URL_Path := ''/chat''\<rparr>) s
       = (http_Error (cors w) ''404 page not found'' StatusNotFound, s)
   \<and> ServeHTTP (fst (NewServer e)) now w (g\<lparr>URL_Path := ''/api/v1/health''\<rparr>) s
       = (http_Error (cors w) ''404 page not found'' StatusNotFound, s)"
proof -
  have p: "Method (r\<lparr>URL_Path := q\<rparr>) \<noteq> ''OPTIONS''" for q using post by simp
  have q: "Method (g\<lparr>URL_Path := q\<rparr>) \<noteq> ''OPTIONS''" for q using get by simp
  show ?thesis
    by (simp only: ServeHTTP_cors NewServer_mux p q if_False
        mux_upload_text [OF post] mux_search [OF post] mux_chat [OF post]
        mux_documents_upload [OF post] mux_documents_search [OF post]
        mux_conversations_chat [OF post] mux_health [OF get]
        mux_no_upload_text mux_no_search mux_no_chat mux_no_v1_health gated_V2 simp_thms)
qed


theorem v1_routes_and_aliases_witness:
  "ServeHTTP (fst (NewServer ex_env)) 0 emptyWriter (ex_post ''/api/v1/documents/upload'') ex_start
     = ServeHTTP (fst (NewServer ex_env)) 0 emptyWriter (ex_post ''/api/v1/upload_text'') ex_start
   \<and> ServeHTTP (fst (NewServer ex_env)) 0 emptyWriter (ex_post ''/upload_text'') ex_start
     = (http_Error (cors emptyWriter) ''404 page not found'' StatusNotFound, ex_start)"
proof -
  have h1: "Method (ex_post []) = ''POST''" and h2: "Method (ex_get []) = ''GET''"
    by (simp_all add: ex_post_def ex_get_def)
  have u: "(ex_post [])\<lparr>URL_Path := p\<rparr> = ex_post p" for p
    by (simp add: ex_post_def)
  from v1_routes_and_aliases [OF h1 h2, of ex_env 0 emptyWriter ex_start]
  show ?thesis by (simp add: u)
qed

lemma ex_start_eval:
  "ex_start = (\<lparr>apiKey = [], rateLimiter = \<lparr>clients = Map.empty, rate = 2,
                                              window = 1000000000\<rparr>\<rparr>, ex_world)"
  by (simp add: ex_start_def NewServer_def newMiddleware_def ex_env_def ex_cfg_def wrap64_def
      time_Second_def)

text \<open>
  C3 as stated fails: the unprefixed upload path is answered 404 where the prefixed one
  answers 200, and the prefixed health path is answered 404 where the unprefixed one
  answers 200.
\<close>

theorem unversioned_routes_counterexample:
  "w_status (fst (ServeHTTP (fst (NewServer ex_env)) 0 emptyWriter (ex_post ''/upload_text'')
                    ex_start)) = Some 404
   \<and> w_status (fst (ServeHTTP (fst (NewServer ex_env)) 0 emptyWriter
                    (ex_post ''/api/v1/upload_text'') ex_start)) = Some 200
   \<and> w_status (fst (ServeHTTP (fst (NewServer ex_env)) 0 emptyWriter (ex_get ''/health'')
                    ex_start)) = Some 200
   \<and> w_status (fst (ServeHTTP (fst (NewServer ex_env)) 0 emptyWriter (ex_get ''/api/v1/health'')
                    ex_start)) = Some 404"
proof -
  have h1: "Method (ex_post []) = ''POST''" and h2: "Method (ex_get []) = ''GET''"
    by (simp_all add: ex_post_def ex_get_def)
  have u: "(ex_post [])\<lparr>URL_Path := p\<rparr> = ex_post p"
    and v: "(ex_get [])\<lparr>URL_Path := p\<rparr> = ex_get p" for p
    by (simp_all add: ex_post_def ex_get_def)
  have po: "Method (ex_post p) \<noteq> ''OPTIONS''" and go: "Method (ex_get p) \<noteq> ''OPTIONS''" for p
    by (simp_all add: ex_post_def ex_get_def)
  have c: "w_status (cors emptyWriter) = None"
    by (simp add: cors_def header_Set_def emptyWriter_def)
  have a1: "w_status (fst (ServeHTTP (fst (NewServer ex_env)) 0 emptyWriter (ex_post ''/upload_text'')
                    ex_start)) = Some 404"
    using mux_no_upload_text [of ex_env 0 "cors emptyWriter" "ex_post []" ex_start]
    by (simp add: ServeHTTP_cors NewServer_mux po u http_Error_status c StatusNotFound_def)
  have a4: "w_status (fst (ServeHTTP (fst (NewServer ex_env)) 0 emptyWriter (ex_get ''/api/v1/health'')
                    ex_start)) = Some 404"
    using mux_no_v1_health [of ex_env 0 "cors emptyWriter" "ex_get []" ex_start]
    by (simp add: ServeHTTP_cors NewServer_mux go v http_Error_status c StatusNotFound_def)
  have a3: "w_status (fst (ServeHTTP (fst (NewServer ex_env)) 0 emptyWriter (ex_get ''/health'')
                    ex_start)) = Some 200"
    using mux_health [OF h2, of ex_env 0 "cors emptyWriter" ex_start]
    by (simp add: ServeHTTP_cors NewServer_mux go v ungated_def handleHealth_def Write_def
        WriteHeader_def header_Set_def c Let_def)
  have g: "gated (handleUploadText ex_env) 0 (cors emptyWriter) (ex_post ''/api/v1/upload_text'')
             ex_start
           = (fst (handleUploadText ex_env (cors emptyWriter) (ex_post ''/api/v1/upload_text'')
                     ex_world),
              set_client (fst ex_start) ''10.0.0.1:9'' \<lparr>tokens = 1, last_t = 0\<rparr>,
              snd (handleUploadText ex_env (cors emptyWriter) (ex_post ''/api/v1/upload_text'')
                     ex_world))"
    by (simp add: gated_def rateLimit_def auth_def allow_def ex_start_eval ex_post_def
        set_client_def split_beta)
  have h: "w_status (fst (handleUploadText ex_env (cors emptyWriter)
                            (ex_post ''/api/v1/upload_text'') ex_world)) = Some 200"
    by (simp add: handleUploadText_def ex_env_def ex_post_def ex_world_def Let_def
        EmbedDocuments_def called_def len_opt_def Upsert_def showNat.simps split_beta
        writeJSON_status c StatusOK_def)
  have a2: "w_status (fst (ServeHTTP (fst (NewServer ex_env)) 0 emptyWriter
                    (ex_post ''/api/v1/upload_text'') ex_start)) = Some 200"
    using mux_upload_text [OF h1, of ex_env 0 "cors emptyWriter" ex_start]
    by (simp add: ServeHTTP_cors NewServer_mux po u g h)
  show ?thesis using a1 a2 a3 a4 by simp
qed

section \<open>The sweep\<close>

text \<open>
  What one run of \<^verbatim>\<open>cleanup\<close> does, for a window whose fivefold fits a
  \<^verbatim>\<open>time.Duration\<close>: it deletes the records whose \<^verbatim>\<open>last\<close> lies more than
  five windows back and keeps every other record as it is.
\<close>

lemma wrap64_id: "minDuration \<le> x \<Longrightarrow> x \<le> maxDuration \<Longrightarrow> wrap64 x = x"
  by (simp add: wrap64_def minDuration_def maxDuration_def)

lemma cleanup_removes_idle_records:
  assumes "0 \<le> window rl" and "window rl * 5 \<le> maxDuration"
  shows "clients (cleanup rl now) ip =
           (case clients rl ip of
              None \<Rightarrow> None
            | Some cl \<Rightarrow> if window rl * 5 < time_Since now (last_t cl) then None else Some cl)
       \<and> rate (cleanup rl now) = rate rl \<and> window (cleanup rl now) = window rl"
proof -
  have "minDuration \<le> window rl * 5" using assms(1) by (simp add: minDuration_def)
  then have "wrap64 (window rl * 5) = window rl * 5" using assms(2) by (rule wrap64_id)
  then show ?thesis by (simp add: cleanup_def split: option.splits)
qed

text \<open>
  Serving a request never deletes a record: the only code that touches the client map
  on the way of a request is \<^verbatim>\<open>allow\<close>, which adds or updates the record of the
  requesting address.
\<close>

lemma allow_keeps:
  "clients rl ip \<noteq> None \<Longrightarrow> clients (snd (allow rl ip' now)) ip \<noteq> None"
  by (auto simp: allow_def Let_def split: option.splits)

lemma allow_other:
  "ip' \<noteq> ip \<Longrightarrow> clients (snd (allow rl ip' now)) ip = clients rl ip"
  by (auto simp: allow_def Let_def split: option.splits)

lemma gated_middleware:
  "fst (snd (gated h now w r s)) =
     (if rate (rateLimiter (fst s)) = 0 then fst s
      else (fst s)\<lparr>rateLimiter := snd (allow (rateLimiter (fst s)) (RemoteAddr r) now)\<rparr>)"
  by (simp add: gated_def rateLimit_def Let_def split_beta)

lemma gated_keeps:
  "clients (rateLimiter (fst s)) ip \<noteq> None \<Longrightarrow>
   clients (rateLimiter (fst (snd (gated h now w r s)))) ip \<noteq> None"
  using allow_keeps [of "rateLimiter (fst s)" ip "RemoteAddr r" now]
  by (simp add: gated_middleware)

lemma ungated_keeps:
  "clients (rateLimiter (fst s)) ip \<noteq> None \<Longrightarrow>
   clients (rateLimiter (fst (snd (ungated h now w r s)))) ip \<noteq> None"
  by (simp add: ungated_def split_beta)

lemma mux_keeps:
  assumes routes: "\<And>pm pp h now w r s. (pm, pp, h) \<in> set routes \<Longrightarrow>
             clients (rateLimiter (fst s)) ip \<noteq> None \<Longrightarrow>
             clients (rateLimiter (fst (snd (h now w r s)))) ip \<noteq> None"
    and s: "clients (rateLimiter (fst s)) ip \<noteq> None"
  shows "clients (rateLimiter (fst (snd (mux_ServeHTTP routes now w r s)))) ip \<noteq> None"
proof (cases "find (\<lambda>(pm, pp, h). method_matches pm (Method r) \<and> path_matches pp (URL_Path r)) routes")
  case None
  then show ?thesis using s by (simp add: mux_ServeHTTP_def)
next
  case (Some x)
  obtain pm pp h where x: "x = (pm, pp, h)" by (cases x)
  from Some obtain i where "i < length routes" and "routes ! i = x"
    unfolding find_Some_iff by blast
  then have "x \<in> set routes" using nth_mem by blast
  with x routes s have "clients (rateLimiter (fst (snd (h now w r s)))) ip \<noteq> None" by blast
  then show ?thesis using Some x by (simp add: mux_ServeHTTP_def)
qed

lemma registerRoutes_keeps:
  assumes "(pm, pp, h) \<in> set (registerRoutes e v)"
    and "clients (rateLimiter (fst s)) ip \<noteq> None"
  shows "clients (rateLimiter (fst (snd (h now w r s)))) ip \<noteq> None"
proof -
  from assms(1) have "(\<exists>g. h = gated g) \<or> (\<exists>g. h = ungated g)"
    by (auto simp: registerRoutes_def Let_def)
  then show ?thesis using assms(2) gated_keeps ungated_keeps by blast
qed

lemma ServeHTTP_keeps:
  assumes "clients (rateLimiter (fst s)) ip \<noteq> None"
  shows "clients (rateLimiter (fst (snd (ServeHTTP (fst (NewServer e)) now w r s)))) ip \<noteq> None"
proof (cases "Method r = ''OPTIONS''")
  case True
  then show ?thesis using assms by (simp add: ServeHTTP_cors)
next
  case False
  have "clients (rateLimiter (fst (snd (mux_ServeHTTP (registerRoutes e ''v1'') now (cors w) r s)))) ip \<noteq> None"
  proof (rule mux_keeps)
    fix pm pp and h :: routeHandler and now w r and s :: "middleware \<times> world"
    assume "(pm, pp, h) \<in> set (registerRoutes e ''v1'')"
      and "clients (rateLimiter (fst s)) ip \<noteq> None"
    then show "clients (rateLimiter (fst (snd (h now w r s)))) ip \<noteq> None"
      by (rule registerRoutes_keeps)
  qed (rule assms)
  then show ?thesis using False by (simp add: ServeHTTP_cors NewServer_mux)
qed

lemma serve_all_keeps:
  "clients (rateLimiter (fst s)) ip \<noteq> None \<Longrightarrow>
   clients (rateLimiter (fst (snd (serve_all (fst (NewServer e)) reqs s)))) ip \<noteq> None"
proof (induction reqs arbitrary: s)
  case Nil
  then show ?case by simp
next
  case (Cons a reqs)
  obtain now r where a: "a = (now, r)" by (cases a)
  have "clients (rateLimiter (fst (snd (ServeHTTP (fst (NewServer e)) now emptyWriter r s)))) ip \<noteq> None"
    using Cons.prems by (rule ServeHTTP_keeps)
  from Cons.IH [OF this] show ?case by (simp add: a split_beta)
qed


lemma ServeHTTP_search_middleware:
  assumes "Method r = ''POST''" and "URL_Path r = ''/api/v1/search''"
  shows "fst (snd (ServeHTTP (fst (NewServer e)) now w r s)) =
     (if rate (rateLimiter (fst s)) = 0 then fst s
      else (fst s)\<lparr>rateLimiter := snd (allow (rateLimiter (fst s)) (RemoteAddr r) now)\<rparr>)"
proof -
  have r: "r\<lparr>URL_Path := ''/api/v1/search''\<rparr> = r" using assms(2) by simp
  have "ServeHTTP (fst (NewServer e)) now w r s = gated (handleSearch e) now (cors w) r s"
    using mux_search [OF assms(1), of e now "cors w" s] assms(1)
    by (simp add: ServeHTTP_cors NewServer_mux r)
  then show ?thesis by (simp add: gated_middleware)
qed

text \<open>
  C8, at the failing input. The server is built with rate 2 and a window of one second.
  Address \<^verbatim>\<open>10.0.0.1:9\<close> sends one request at time 0; ten seconds later another
  address sends one. The record of the first address, idle for ten windows, is still in
  the map with its tokens and its window start, although a run of \<^verbatim>\<open>cleanup\<close> at
  that time would delete it: nothing in the server runs \<^verbatim>\<open>cleanup\<close>.
\<close>

theorem idle_record_never_swept:
  "clients (rateLimiter (fst (snd (serve_all (fst (NewServer ex_env))
       [(0, ex_post ''/api/v1/search''), (10000000000, ex_other)] ex_start)))) ''10.0.0.1:9''
     = Some \<lparr>tokens = 1, last_t = 0\<rparr>
   \<and> clients (cleanup (rateLimiter (fst (snd (serve_all (fst (NewServer ex_env))
       [(0, ex_post ''/api/v1/search''), (10000000000, ex_other)] ex_start)))) 10000000000)
       ''10.0.0.1:9''
     = None"
proof -
  let ?S = "fst (NewServer ex_env)"
  let ?r1 = "ex_post ''/api/v1/search''"
  define s1 where "s1 = snd (ServeHTTP ?S 0 emptyWriter ?r1 ex_start)"
  define s2 where "s2 = snd (ServeHTTP ?S 10000000000 emptyWriter ex_other s1)"
  have run: "snd (serve_all ?S [(0, ?r1), (10000000000, ex_other)] ex_start) = s2"
    by (simp add: s1_def s2_def split_beta)
  have r1: "Method ?r1 = ''POST''" "URL_Path ?r1 = ''/api/v1/search''"
    "RemoteAddr ?r1 = ''10.0.0.1:9''"
    and r2: "Method ex_other = ''POST''" "URL_Path ex_other = ''/api/v1/search''"
    "RemoteAddr ex_other = ''10.0.0.2:9''"
    by (simp_all add: ex_post_def ex_other_def)
  have m1: "fst s1 = \<lparr>apiKey = [], rateLimiter =
              \<lparr>clients = [''10.0.0.1:9'' \<mapsto> \<lparr>tokens = 1, last_t = 0\<rparr>], rate = 2,
               window = 1000000000\<rparr>\<rparr>"
    unfolding s1_def ServeHTTP_search_middleware [OF r1(1,2)]
    by (simp add: r1 ex_start_eval allow_def)
  have m2: "clients (rateLimiter (fst s2)) ''10.0.0.1:9'' = Some \<lparr>tokens = 1, last_t = 0\<rparr>"
    and w2: "window (rateLimiter (fst s2)) = 1000000000"
    unfolding s2_def ServeHTTP_search_middleware [OF r2(1,2)]
    by (simp_all add: r2 m1 allow_def)
  have swept: "clients (cleanup (rateLimiter (fst s2)) 10000000000) ''10.0.0.1:9'' = None"
    by (simp add: cleanup_def m2 w2 wrap64_def time_Since_def maxDuration_def minDuration_def)
  show ?thesis by (simp only: run m2 swept simp_thms)
qed

section \<open>Further facts about the handlers\<close>

text \<open>
  The upload handler never panics: \<^verbatim>\<open>EmbedDocuments\<close> returns as many vectors as
  chunks or an error, so \<^verbatim>\<open>embeddings[i]\<close> is always in range.
\<close>

lemma Upsert_panicked: "panicked (snd (Upsert e c docs st)) = panicked st"
  by (simp add: Upsert_world called_def)

lemma EmbedDocuments_panicked: "panicked (snd (EmbedDocuments e chunks st)) = panicked st"
  by (simp add: EmbedDocuments_world called_def)

lemma handleUploadText_never_panics:
  "panicked (snd (handleUploadText e w r st)) = panicked st"
proof (cases "decode_UploadTextRequest e (Body r)")
  case (Inl er)
  then show ?thesis by (simp add: handleUploadText_def)
next
  case (Inr req)
  show ?thesis
  proof (cases "Text req = []")
    case True
    with Inr show ?thesis by (simp add: handleUploadText_def)
  next
    case ne: False
    show ?thesis
    proof (cases "splitter_SplitText e (Text req)")
      case (Inl er)
      with Inr ne show ?thesis by (simp add: handleUploadText_def Let_def called_def)
    next
      case spl: (Inr chunks)
      show ?thesis
      proof (cases "chunks = []")
        case True
        with Inr ne spl show ?thesis by (simp add: handleUploadText_def Let_def called_def)
      next
        case cne: False
        define st1 where "st1 = called (Call_SplitText (Text req)) st"
        obtain emb st2 where E: "EmbedDocuments e chunks st1 = (emb, st2)"
          by (cases "EmbedDocuments e chunks st1") auto
        have p2: "panicked st2 = panicked st"
          using EmbedDocuments_panicked [of e chunks st1] E by (simp add: st1_def called_def)
        show ?thesis
        proof (cases emb)
          case (Inl er)
          with Inr ne spl cne E p2 show ?thesis
            by (simp add: handleUploadText_def Let_def st1_def)
        next
          case emb: (Inr embeddings)
          have "length embeddings = length chunks"
            using E emb by (auto dest: EmbedDocuments_length)
          then obtain docs ids u where
            up: "upload_docs e req embeddings 0 chunks (uuids_used st2) = Some ((docs, ids), u)"
            using upload_docs_no_panic [of 0 chunks embeddings e req "uuids_used st2"] by auto
          have "panicked (snd (Upsert e (VectorStore_Collection (cfg e)) docs
                                 (st2\<lparr>uuids_used := u\<rparr>))) = panicked st"
            by (simp add: Upsert_panicked p2)
          with Inr ne spl cne E emb up show ?thesis
            by (simp add: handleUploadText_def Let_def st1_def split_beta split: option.splits)
        qed
      qed
    qed
  qed
qed

text \<open>
  The query sent to the index asks for RRF fusion over one dense sub-query, and over a
  dense and a sparse one when a sparse vector is given; the fusion itself happens in the
  index.
\<close>

lemma hybrid_query_dense_only:
  "qp_Prefetch (hybrid_query collection v None k)
     = [\<lparr>pf_Nearest = VectorInput_Dense v, pf_Using = ''dense'', pf_Limit = k\<rparr>]
   \<and> qp_Fusion (hybrid_query collection v sp k) = Fusion_RRF
   \<and> length (qp_Prefetch (hybrid_query collection v (Some s) k)) = 2"
  by (simp add: hybrid_query_def Let_def)

section \<open>Fusion\<close>

text \<open>
  C9. With a positive constant, a candidate that appears in both the dense and the
  sparse list has as fused score the sum of its two reciprocal-rank terms, and this is
  strictly more than the fused score of a candidate that appears in one list only, at
  the rank the first candidate has in that list.
\<close>

theorem rrf_both_lists_higher:
  assumes c: "0 < c"
    and xd: "rank_in x dense = Some rd" and xs: "rank_in x sparse = Some rs"
    and y: "(rank_in y dense' = Some rd \<and> rank_in y sparse' = None)
            \<or> (rank_in y dense' = None \<and> rank_in y sparse' = Some rs)"
  shows "rrf_score c [dense, sparse] x = 1 / (of_nat rd + c) + 1 / (of_nat rs + c)
       \<and> rrf_score c [dense', sparse'] y < rrf_score c [dense, sparse] x"
proof -
  have pd: "0 < 1 / (of_nat rd + c)" and ps: "0 < 1 / (of_nat rs + c)"
    using c by (simp_all add: add_nonneg_pos)
  have sx: "rrf_score c [dense, sparse] x = 1 / (of_nat rd + c) + 1 / (of_nat rs + c)"
    by (simp add: rrf_score_def rrf_term_def xd xs)
  from y have "rrf_score c [dense', sparse'] y < 1 / (of_nat rd + c) + 1 / (of_nat rs + c)"
  proof
    assume "rank_in y dense' = Some rd \<and> rank_in y sparse' = None"
    then have "rrf_score c [dense', sparse'] y = 1 / (of_nat rd + c)"
      by (simp add: rrf_score_def rrf_term_def)
    then show ?thesis using ps by simp
  next
    assume "rank_in y dense' = None \<and> rank_in y sparse' = Some rs"
    then have "rrf_score c [dense', sparse'] y = 1 / (of_nat rs + c)"
      by (simp add: rrf_score_def rrf_term_def)
    then show ?thesis using pd by simp
  qed
  then show ?thesis using sx by simp
qed

theorem rrf_both_lists_higher_witness:
  "rrf_score 60 [[''p1'', ''p2''], [''p3'', ''p1'']] ''p1'' = 1 / 60 + 1 / 61
   \<and> rrf_score 60 [[''p4'', ''p2''], [''p3'']] ''p4'' < rrf_score 60 [[''p1'', ''p2''], [''p3'', ''p1'']] ''p1''"
proof -
  have h0: "(0::rat) < 60" by simp
  have h1: "rank_in ''p1'' [''p1'', ''p2''] = Some 0"
    and h2: "rank_in ''p1'' [''p3'', ''p1''] = Some 1"
    and h3: "(rank_in ''p4'' [''p4'', ''p2''] = Some 0 \<and> rank_in ''p4'' [''p3''] = None)
            \<or> (rank_in ''p4'' [''p4'', ''p2''] = None \<and> rank_in ''p4'' [''p3''] = Some 1)"
    by simp_all
  from rrf_both_lists_higher [OF h0 h1 h2 h3] show ?thesis by simp
qed

end
